theory Spec2Isabelle
  imports Main
begin

section \<open>JavaScript strings\<close>

text \<open>
  A JavaScript string is a sequence of UTF-16 code units. The model is \<^typ>\<open>string\<close>: a
  \<^typ>\<open>char\<close> is one code unit, restricted to the code units below 256 (Latin-1), and
  \<^const>\<open>length\<close> is the \<^verbatim>\<open>length\<close> property. The character classes below are the
  ECMAScript ones cut down to that range.
\<close>

definition nl :: char where
  "nl = CHR 0x0A"

text \<open>The class \<^verbatim>\<open>\s\<close> of a regular expression, which is also what \<^verbatim>\<open>trim\<close> removes:
  tab, line feed, vertical tab, form feed, carriage return, space, no-break space.\<close>

definition is_space :: "char \<Rightarrow> bool" where
  "is_space c = (c \<in> set [CHR 0x09, CHR 0x0A, CHR 0x0B, CHR 0x0C, CHR 0x0D, CHR 0x20, CHR 0xA0])"

text \<open>The class \<^verbatim>\<open>\d\<close>.\<close>

definition is_digit :: "char \<Rightarrow> bool" where
  "is_digit c = (c \<in> set ''0123456789'')"

text \<open>\<^verbatim>\<open>String.prototype.trim\<close>.\<close>

definition trim :: "string \<Rightarrow> string" where
  "trim s = rev (dropWhile is_space (rev (dropWhile is_space s)))"

text \<open>\<^verbatim>\<open>Array.prototype.join\<close> on an array of strings.\<close>

fun join :: "string \<Rightarrow> string list \<Rightarrow> string" where
  "join sep [] = []"
| "join sep [x] = x"
| "join sep (x # y # ys) = x @ sep @ join sep (y # ys)"

text \<open>\<^verbatim>\<open>s.split(/\s+/)\<close>: the fields between the maximal runs of white space. A run at
  the start or at the end leaves an empty field there, and the empty string has the one
  field \<^verbatim>\<open>""\<close>.\<close>

function split_ws :: "string \<Rightarrow> string list" where
  "split_ws [] = [[]]"
| "split_ws (c # cs) =
     (if is_space c then [] # split_ws (dropWhile is_space cs)
      else (let r = split_ws cs in (c # hd r) # tl r))"
  by pat_completeness auto
termination
  by (relation "measure length") (auto simp: less_Suc_eq_le length_dropWhile_le)

text \<open>\<^verbatim>\<open>s.split('\n')\<close> and its like: the fields between the occurrences of one
  character.\<close>

fun split_on :: "char \<Rightarrow> string \<Rightarrow> string list" where
  "split_on d [] = [[]]"
| "split_on d (c # cs) =
     (if c = d then [] # split_on d cs
      else (let r = split_on d cs in (c # hd r) # tl r))"

text \<open>\<^verbatim>\<open>s.startsWith(p)\<close>, \<^verbatim>\<open>s.endsWith(p)\<close> and \<^verbatim>\<open>s.includes(p)\<close>.\<close>

definition startsWith :: "string \<Rightarrow> string \<Rightarrow> bool" where
  "startsWith s p = (take (length p) s = p)"

definition endsWith :: "string \<Rightarrow> string \<Rightarrow> bool" where
  "endsWith s p = (length p \<le> length s \<and> drop (length s - length p) s = p)"

fun includes_str :: "string \<Rightarrow> string \<Rightarrow> bool" where
  "includes_str [] p = (p = [])"
| "includes_str (c # cs) p = (startsWith (c # cs) p \<or> includes_str cs p)"

text \<open>The decimal digits of a number, as a template literal prints it.\<close>

function show_nat :: "nat \<Rightarrow> string" where
  "show_nat n =
     (if n < 10 then [''0123456789'' ! n]
      else show_nat (n div 10) @ [''0123456789'' ! (n mod 10)])"
  by pat_completeness auto
termination
  by (relation "measure id") auto

section \<open>scholarHelper.ts: the search provider\<close>

subsection \<open>Keyword broadening\<close>

text \<open>
  Lines 127 to 131 of \<^verbatim>\<open>searchArticles\<close>:
  \<^verbatim>\<open>query.replace(/['"]/g, '').split(/\s+/).filter(word => word.length > 3).slice(0, 3)\<close>
  and line 134, \<^verbatim>\<open>keywords.join(' ')\<close>.
\<close>

definition is_quote :: "char \<Rightarrow> bool" where
  "is_quote c = (c = CHR 0x27 \<or> c = CHR 0x22)"

definition keywords_of :: "string \<Rightarrow> string list" where
  "keywords_of query =
     take 3 (filter (\<lambda>word. length word > 3) (split_ws (filter (\<lambda>c. \<not> is_quote c) query)))"

definition generalQuery :: "string \<Rightarrow> string" where
  "generalQuery query = join '' '' (keywords_of query)"

lemma split_ws_nonempty [simp]: "split_ws s \<noteq> []"
  by (induction s rule: split_ws.induct) (auto simp: Let_def)

lemma split_ws_fields_all:
  "\<forall>w\<in>set (split_ws s). \<forall>c\<in>set w. \<not> is_space c \<and> c \<in> set s"
proof (induction s rule: split_ws.induct)
  case 1
  then show ?case by simp
next
  case (2 d ds)
  show ?case
  proof (cases "is_space d")
    case True
    with 2 show ?thesis
      by (auto dest: set_dropWhileD)
  next
    case False
    obtain h t where r: "split_ws ds = h # t"
      by (cases "split_ws ds") auto
    with 2(2)[OF False] False show ?thesis
      by (auto simp: Let_def)
  qed
qed

lemma split_ws_fields:
  "w \<in> set (split_ws s) \<Longrightarrow> c \<in> set w \<Longrightarrow> \<not> is_space c \<and> c \<in> set s"
  using split_ws_fields_all by blast

lemma split_ws_word:
  "\<forall>c\<in>set k. \<not> is_space c \<Longrightarrow> split_ws (k @ s) = (k @ hd (split_ws s)) # tl (split_ws s)"
  by (induction k) (auto simp: Let_def)

text \<open>Splitting undoes joining with one space, for fields that are not empty and hold
  no white space.\<close>

lemma split_ws_join:
  "ks \<noteq> [] \<Longrightarrow> \<forall>k\<in>set ks. k \<noteq> [] \<and> (\<forall>c\<in>set k. \<not> is_space c) \<Longrightarrow>
   split_ws (join '' '' ks) = ks"
proof (induction "'' ''" ks rule: join.induct)
  case 1
  then show ?case by simp
next
  case (2 x)
  then show ?case
    using split_ws_word [of x "[]"] by simp
next
  case (3 x y ys)
  have sp: "is_space CHR '' ''"
    by (simp add: is_space_def)
  from 3 have y: "y \<noteq> []" "\<not> is_space (hd y)"
    by auto
  then have "dropWhile is_space (join '' '' (y # ys)) = join '' '' (y # ys)"
    by (cases y; cases ys) auto
  then have "split_ws ('' '' @ join '' '' (y # ys)) = [] # (y # ys)"
    using 3 sp by simp
  then show ?case
    using 3(3) split_ws_word [of x "'' '' @ join '' '' (y # ys)"] by simp
qed

lemma filter_join:
  "\<forall>k\<in>set ks. \<forall>c\<in>set k. P c \<Longrightarrow> \<forall>c\<in>set sep. P c \<Longrightarrow> filter P (join sep ks) = join sep ks"
  by (induction sep ks rule: join.induct) (auto simp: filter_id_conv)

lemma keywords_props:
  assumes "k \<in> set (keywords_of q)"
  shows "length k > 3" and "\<forall>c\<in>set k. \<not> is_space c \<and> \<not> is_quote c"
proof -
  from assms have k:
    "k \<in> set (filter (\<lambda>word. length word > 3) (split_ws (filter (\<lambda>c. \<not> is_quote c) q)))"
    unfolding keywords_of_def by (rule in_set_takeD)
  then show "length k > 3" by simp
  from k have "k \<in> set (split_ws (filter (\<lambda>c. \<not> is_quote c) q))" by simp
  then show "\<forall>c\<in>set k. \<not> is_space c \<and> \<not> is_quote c"
    using split_ws_fields by fastforce
qed

lemma length_keywords: "length (keywords_of q) \<le> 3"
  by (simp add: keywords_of_def)

text \<open>The keywords of the broadened query are the keywords it was built from.\<close>

lemma keywords_generalQuery: "keywords_of (generalQuery q) = keywords_of q"
proof (cases "keywords_of q = []")
  case True
  then show ?thesis
    by (simp add: generalQuery_def) (simp add: keywords_of_def)
next
  case False
  let ?ks = "keywords_of q"
  have "\<forall>k\<in>set ?ks. \<forall>c\<in>set k. \<not> is_quote c"
    using keywords_props by blast
  moreover have "\<forall>c\<in>set '' ''. \<not> is_quote c"
    by (simp add: is_quote_def)
  ultimately have nq: "filter (\<lambda>c. \<not> is_quote c) (join '' '' ?ks) = join '' '' ?ks"
    by (rule filter_join)
  have "\<forall>k\<in>set ?ks. k \<noteq> [] \<and> (\<forall>c\<in>set k. \<not> is_space c)"
    using keywords_props by fastforce
  with False have sp: "split_ws (join '' '' ?ks) = ?ks"
    by (rule split_ws_join)
  have fl: "filter (\<lambda>word. length word > 3) ?ks = ?ks"
    by (simp add: filter_id_conv keywords_props)
  show ?thesis
    unfolding generalQuery_def
    by (subst (1) keywords_of_def) (simp add: nq sp fl length_keywords)
qed

lemma generalQuery_fixed: "generalQuery (generalQuery q) = generalQuery q"
  by (simp add: generalQuery_def keywords_generalQuery [unfolded generalQuery_def])

subsection \<open>The helper and its requests\<close>

text \<open>
  \<^verbatim>\<open>ScholarConfig\<close> and the private fields of the class \<^verbatim>\<open>ScholarHelper\<close>. The constructor
  reads \<^verbatim>\<open>config.apiKey || process.env.SCRAPINGDOG_KEY || ''\<close>: an absent or empty value is
  falsy, so the next alternative is taken.
\<close>

record ScholarConfig =
  cfg_apiKey :: "string option"
  cfg_resultsPerPage :: "nat option"
  cfg_language :: "string option"

record ScholarHelper =
  apiKey :: string
  resultsPerPage :: nat
  language :: string
  baseUrl :: string

text \<open>Whether a string that may be missing is truthy, and \<^verbatim>\<open>a || b\<close> for such a string and
  a default.\<close>

definition truthy :: "string option \<Rightarrow> bool" where
  "truthy s = (case s of None \<Rightarrow> False | Some t \<Rightarrow> t \<noteq> [])"

definition or_else :: "string option \<Rightarrow> string \<Rightarrow> string" where
  "or_else a b = (case a of None \<Rightarrow> b | Some s \<Rightarrow> if s = [] then b else s)"

definition new_ScholarHelper :: "ScholarConfig \<Rightarrow> string option \<Rightarrow> ScholarHelper" where
  "new_ScholarHelper config env_SCRAPINGDOG_KEY =
     \<lparr>apiKey = or_else (cfg_apiKey config) (or_else env_SCRAPINGDOG_KEY []),
      resultsPerPage =
        (case cfg_resultsPerPage config of None \<Rightarrow> 20 | Some n \<Rightarrow> if n = 0 then 20 else n),
      language = or_else (cfg_language config) ''en'',
      baseUrl = ''https://api.scrapingdog.com/google_scholar/''\<rparr>"

text \<open>The query parameters of one request (lines 101 to 107).\<close>

record params =
  api_key :: string
  param_query :: string
  param_language :: string
  param_page :: nat
  param_results :: nat

definition request_params :: "ScholarHelper \<Rightarrow> string \<Rightarrow> nat \<Rightarrow> params" where
  "request_params this query page =
     \<lparr>api_key = apiKey this, param_query = query, param_language = language this,
      param_page = page, param_results = resultsPerPage this\<rparr>"

text \<open>
  The interfaces of the file. Of a search result only the fields the pipeline reads are
  kept. In the body of a reply (\<^verbatim>\<open>ScrapingDogResponse\<close>) the two fields the code reads are
  optional, since the code tests \<^verbatim>\<open>data.scholar_results\<close> for presence.
\<close>

record SearchDetails =
  details_query :: string
  number_of_results :: string

record ScholarSearchResult =
  result_title :: string
  title_link :: string
  result_id :: string
  displayed_link :: "string option"
  snippet :: "string option"

record ScrapingDogResponse =
  data_search_details :: "SearchDetails option"
  data_scholar_results :: "ScholarSearchResult list option"

record ScholarSearchResponse =
  search_details :: "SearchDetails option"
  scholar_results :: "ScholarSearchResult list option"
  search_error :: "string option"

record AxiosResponse =
  resp_status :: nat
  resp_data :: ScrapingDogResponse

text \<open>
  What a call that may throw does: it throws a value, an \<^verbatim>\<open>Error\<close> with its message or
  something that is no \<^verbatim>\<open>Error\<close>, or it returns.
\<close>

datatype thrown = Error string | NotAnError

datatype 'a outcome = Threw thrown | Returned 'a

text \<open>The \<^verbatim>\<open>catch\<close> block of \<^verbatim>\<open>searchArticles\<close> (lines 149 to 159).\<close>

definition catch_response :: "string \<Rightarrow> thrown \<Rightarrow> ScholarSearchResponse" where
  "catch_response query e =
     \<lparr>search_details = Some \<lparr>details_query = query, number_of_results = ''0 results''\<rparr>,
      scholar_results = Some [],
      search_error = Some (case e of Error message \<Rightarrow> message
                    | NotAnError \<Rightarrow> ''Unknown error searching for articles'')\<rparr>"

text \<open>
  \<^verbatim>\<open>searchArticles\<close> (lines 95 to 160). The search index is the parameter \<open>axios_get\<close>: what
  the \<open>n\<close>-th request of a run (counted from 0) does, given its parameters; the same query
  may be answered differently by two requests. The requests sent so far are threaded
  through as \<open>sent\<close> and returned with the response, so that the number of search attempts
  of a call can be read off the result. The method calls itself with the broadened query;
  that it does so at most once is the termination proof.
\<close>

function searchArticles ::
  "ScholarHelper \<Rightarrow> (nat \<Rightarrow> params \<Rightarrow> AxiosResponse outcome) \<Rightarrow> params list \<Rightarrow> string \<Rightarrow> nat
   \<Rightarrow> ScholarSearchResponse \<times> params list" where
  "searchArticles this axios_get sent query page =
     (if apiKey this = [] then
        (catch_response query (Error
           ''ScrapingDog API key is not configured. Please set SCRAPINGDOG_KEY in .env.local''),
         sent)
      else
        (case axios_get (length sent) (request_params this query page) of
           Threw e \<Rightarrow> (catch_response query e, sent @ [request_params this query page])
         | Returned response \<Rightarrow>
             if resp_status response \<noteq> 200 then
               (catch_response query (Error
                  (''Request failed with status code: '' @ show_nat (resp_status response))),
                sent @ [request_params this query page])
             else if data_scholar_results (resp_data response) = Some []
                     \<and> keywords_of query \<noteq> [] \<and> generalQuery query \<noteq> query then
               searchArticles this axios_get (sent @ [request_params this query page])
                 (generalQuery query) page
             else
               (\<lparr>search_details = data_search_details (resp_data response),
                 scholar_results =
                   Some (case data_scholar_results (resp_data response) of
                           None \<Rightarrow> [] | Some rs \<Rightarrow> rs),
                 search_error = None\<rparr>,
                sent @ [request_params this query page])))"
  by pat_completeness auto
termination
  by (relation "measure (\<lambda>(this, axios_get, sent, query, page).
        if generalQuery query = query then 0 else 1)")
     (auto simp: generalQuery_fixed)

declare searchArticles.simps [simp del]

text \<open>\<^verbatim>\<open>searchByInterests\<close> (lines 169 to 173).\<close>

definition searchByInterests ::
  "ScholarHelper \<Rightarrow> (nat \<Rightarrow> params \<Rightarrow> AxiosResponse outcome) \<Rightarrow> params list \<Rightarrow> string list \<Rightarrow> nat
   \<Rightarrow> ScholarSearchResponse \<times> params list" where
  "searchByInterests this axios_get sent interests page =
     searchArticles this axios_get sent (join '' '' interests) page"

text \<open>
  \<^verbatim>\<open>searchWithAdvancedQuery\<close> (lines 182 to 198). \<^verbatim>\<open>interests[0]\<close> and \<^verbatim>\<open>interests[1]\<close> are
  read only where the length test has shown them to exist.
\<close>

definition searchWithAdvancedQuery ::
  "ScholarHelper \<Rightarrow> (nat \<Rightarrow> params \<Rightarrow> AxiosResponse outcome) \<Rightarrow> params list \<Rightarrow> string list \<Rightarrow> nat
   \<Rightarrow> ScholarSearchResponse \<times> params list" where
  "searchWithAdvancedQuery this axios_get sent interests page =
     (let query =
        (if length interests = 1 then interests ! 0
         else if length interests = 2 then interests ! 0 @ '' AND '' @ interests ! 1
         else
           (let primaryInterests = join '' AND '' (take 2 interests);
                secondaryInterests = join '' OR '' (drop 2 interests)
            in ''('' @ primaryInterests @ '') AND ('' @ secondaryInterests @ '')''))
      in searchArticles this axios_get sent query page)"

section \<open>llmHelper.ts: the summarizer\<close>

subsection \<open>Letter case\<close>

text \<open>
  The letters of the Latin-1 range and their lower-case forms. \<^verbatim>\<open>toLowerCase\<close> maps each
  upper-case letter to its lower-case form and leaves every other code unit of the range
  as it is. A regular expression with the flag \<^verbatim>\<open>i\<close> compares the canonical forms of two
  code units: the upper-case form of a lower-case letter, the code unit itself otherwise
  (the three code units of the range whose upper-case form lies outside it, or is two
  code units long, are compared as they are).
\<close>

definition upper_case :: string where
  "upper_case = ''ABCDEFGHIJKLMNOPQRSTUVWXYZ'' @
     [CHR 0xC0, CHR 0xC1, CHR 0xC2, CHR 0xC3, CHR 0xC4, CHR 0xC5, CHR 0xC6, CHR 0xC7,
      CHR 0xC8, CHR 0xC9, CHR 0xCA, CHR 0xCB, CHR 0xCC, CHR 0xCD, CHR 0xCE, CHR 0xCF,
      CHR 0xD0, CHR 0xD1, CHR 0xD2, CHR 0xD3, CHR 0xD4, CHR 0xD5, CHR 0xD6,
      CHR 0xD8, CHR 0xD9, CHR 0xDA, CHR 0xDB, CHR 0xDC, CHR 0xDD, CHR 0xDE]"

definition lower_case :: string where
  "lower_case = ''abcdefghijklmnopqrstuvwxyz'' @
     [CHR 0xE0, CHR 0xE1, CHR 0xE2, CHR 0xE3, CHR 0xE4, CHR 0xE5, CHR 0xE6, CHR 0xE7,
      CHR 0xE8, CHR 0xE9, CHR 0xEA, CHR 0xEB, CHR 0xEC, CHR 0xED, CHR 0xEE, CHR 0xEF,
      CHR 0xF0, CHR 0xF1, CHR 0xF2, CHR 0xF3, CHR 0xF4, CHR 0xF5, CHR 0xF6,
      CHR 0xF8, CHR 0xF9, CHR 0xFA, CHR 0xFB, CHR 0xFC, CHR 0xFD, CHR 0xFE]"

definition toLowerCase_char :: "char \<Rightarrow> char" where
  "toLowerCase_char c =
     (case map_of (zip upper_case lower_case) c of None \<Rightarrow> c | Some l \<Rightarrow> l)"

definition toLowerCase :: "string \<Rightarrow> string" where
  "toLowerCase s = map toLowerCase_char s"

definition canonicalize :: "char \<Rightarrow> char" where
  "canonicalize c =
     (case map_of (zip lower_case upper_case) c of None \<Rightarrow> c | Some u \<Rightarrow> u)"

text \<open>A literal of a pattern with the flag \<^verbatim>\<open>i\<close> matches at the start of \<open>s\<close>.\<close>

definition matches_ci :: "string \<Rightarrow> string \<Rightarrow> bool" where
  "matches_ci literal s =
     (length literal \<le> length s \<and>
      map canonicalize (take (length literal) s) = map canonicalize literal)"

subsection \<open>The pattern for a line after a marker\<close>

text \<open>
  The part \<^verbatim>\<open>\s*([^\n]+)\<close> that the patterns of \<^verbatim>\<open>llmHelper.ts\<close> and
  \<^verbatim>\<open>cohereHelper.ts\<close> share, matched at the start of a string: the white space taken by
  \<^verbatim>\<open>\s*\<close> and the text of the group. \<^verbatim>\<open>\s*\<close> is greedy: it takes a white-space character
  when the rest of the pattern matches after it, and gives it back to the group
  otherwise; the group takes every character up to the next line feed, and at least one.
\<close>

fun ws_line :: "string \<Rightarrow> (string \<times> string) option" where
  "ws_line [] = None"
| "ws_line (c # cs) =
     (if is_space c then
        (case ws_line cs of
           Some (w, g) \<Rightarrow> Some (c # w, g)
         | None \<Rightarrow> if c \<noteq> nl then Some ([], takeWhile (\<lambda>d. d \<noteq> nl) (c # cs)) else None)
      else Some ([], takeWhile (\<lambda>d. d \<noteq> nl) (c # cs)))"

text \<open>
  \<^verbatim>\<open>/title:\s*([^\n]+)/i\<close> at the start of a string: the whole match and group 1.
\<close>

definition title_at :: "string \<Rightarrow> (string \<times> string) option" where
  "title_at s =
     (if matches_ci ''title:'' s then
        (case ws_line (drop 6 s) of
           None \<Rightarrow> None
         | Some (w, g) \<Rightarrow> Some (take 6 s @ w @ g, g))
      else None)"

text \<open>
  The first match of the pattern in a string, as \<^verbatim>\<open>match\<close> and \<^verbatim>\<open>replace\<close> find it:
  the text before the match, the match, group 1 and the text after the match.
\<close>

fun title_search :: "string \<Rightarrow> (string \<times> string \<times> string \<times> string) option" where
  "title_search [] = None"
| "title_search (c # cs) =
     (case title_at (c # cs) of
        Some (m, g) \<Rightarrow> Some ([], m, g, drop (length m) (c # cs))
      | None \<Rightarrow> map_option (\<lambda>(before, m, g, after). (c # before, m, g, after)) (title_search cs))"

subsection \<open>Title and content\<close>

text \<open>Lines 132 to 134 of \<^verbatim>\<open>summarizeArticle\<close>.\<close>

definition truncatedText :: "string \<Rightarrow> string" where
  "truncatedText articleText =
     (if length articleText > 8000 then take 8000 articleText @ ''...'' else articleText)"

text \<open>
  Lines 137 to 147: the pair of \<^verbatim>\<open>title\<close> and \<^verbatim>\<open>content\<close>. \<^verbatim>\<open>replace\<close> with the same
  pattern removes the match that \<^verbatim>\<open>match\<close> found.
\<close>

definition title_and_content :: "string \<Rightarrow> string \<times> string" where
  "title_and_content txt =
     (if includes_str (toLowerCase txt) ''title:'' then
        (case title_search txt of
           Some (before, m, g, after) \<Rightarrow>
             if g \<noteq> [] then (trim g, trim (before @ after))
             else (''Scholarly Article'', txt)
         | None \<Rightarrow> (''Scholarly Article'', txt))
      else (''Scholarly Article'', txt))"

subsection \<open>The reply of the model\<close>

text \<open>
  The interfaces \<^verbatim>\<open>OpenAIOutputContent\<close>, \<^verbatim>\<open>OpenAIOutputItem\<close>,
  \<^verbatim>\<open>OpenAIResponseWithOutput\<close> and \<^verbatim>\<open>LegacyOpenAIResponse\<close>, as one record of the four
  properties that \<^verbatim>\<open>summarizeArticle\<close> reads; the field \<open>output_items\<close> is the property
  \<^verbatim>\<open>output\<close> and \<open>response_text\<close> the property \<^verbatim>\<open>text\<close>. A property that the code tests at
  run time (\<^verbatim>\<open>in\<close>, \<^verbatim>\<open>typeof\<close>, \<^verbatim>\<open>Array.isArray\<close>, \<^verbatim>\<open>!== undefined\<close>) is absent, present
  with a value of another type than the interface declares, or present as declared. For
  \<^verbatim>\<open>choices\<close>, which is only tested for being there and then for being truthy and of a
  length above 0, \<open>Mistyped\<close> stands for a value that is falsy or has no such length. An
  element of an array of objects may be \<^verbatim>\<open>null\<close>.
\<close>

datatype 'a field = Absent | Mistyped | Present 'a

record OpenAIOutputContent =
  content_type :: "string option"
  content_text :: "string option"

record OpenAIOutputItem =
  item_content :: "OpenAIOutputContent option list field"

record LegacyMessage =
  message_content :: "string option"

record LegacyChoice =
  choice_message :: "LegacyMessage option"

record OpenAIResponse =
  output_text :: "string field"
  output_items :: "OpenAIOutputItem option list field"
  response_text :: "string field"
  choices :: "LegacyChoice option list field"

text \<open>
  Reading a property of \<^verbatim>\<open>null\<close> throws a \<^verbatim>\<open>TypeError\<close>, which is an \<^verbatim>\<open>Error\<close>; its message
  is the one of the engine that runs the helper (Node).
\<close>

definition null_property :: "string \<Rightarrow> thrown" where
  "null_property name =
     Error (''Cannot read properties of null (reading '' @ [CHR 0x27] @ name @ [CHR 0x27] @ '')'')"

text \<open>The loop of lines 202 to 207: the text of the first item of type \<^verbatim>\<open>output_text\<close>
  whose text is not empty, and the initial \<^verbatim>\<open>""\<close> when there is none. An item that is
  \<^verbatim>\<open>null\<close> and is reached throws.\<close>

fun first_output_text :: "OpenAIOutputContent option list \<Rightarrow> thrown + string" where
  "first_output_text [] = Inr []"
| "first_output_text (None # items) = Inl (null_property ''type'')"
| "first_output_text (Some item # items) =
     (case content_text item of
        Some t \<Rightarrow>
          if content_type item = Some ''output_text'' \<and> t \<noteq> [] then Inr t
          else first_output_text items
      | None \<Rightarrow> first_output_text items)"

text \<open>Lines 189 to 237: the value of \<^verbatim>\<open>summary\<close> after the chain of tests, or what the
  chain throws.\<close>

definition extracted_summary :: "OpenAIResponse \<Rightarrow> thrown + string" where
  "extracted_summary response =
     (case output_text response of
        Present s \<Rightarrow> Inr s
      | _ \<Rightarrow>
        (case output_items response of
           Present (item0 # rest) \<Rightarrow>
             (case item0 of
                Some item \<Rightarrow>
                  (case item_content item of
                     Present content \<Rightarrow> first_output_text content
                   | _ \<Rightarrow> Inr [])
              | None \<Rightarrow> Inr [])
         | _ \<Rightarrow>
           (case response_text response of
              Present s \<Rightarrow> Inr s
            | Mistyped \<Rightarrow> Inr ''No summary content available from text property.''
            | Absent \<Rightarrow>
              (case choices response of
                 Present (Some firstChoice # others) \<Rightarrow>
                   (case choice_message firstChoice of
                      Some m \<Rightarrow> (case message_content m of Some s \<Rightarrow> Inr s | None \<Rightarrow> Inr [])
                    | None \<Rightarrow> Inr [])
               | Present (None # others) \<Rightarrow> Inl (null_property ''message'')
               | Present [] \<Rightarrow> Inr []
               | Mistyped \<Rightarrow> Inr []
               | Absent \<Rightarrow> Inr ''Unable to extract summary from response.''))))"

text \<open>Lines 240 to 242: the test for a summary that is empty, blank or wrapped in
  braces, and the default that replaces such a summary.\<close>

definition needs_default :: "string \<Rightarrow> bool" where
  "needs_default summary =
     (summary = [] \<or> trim summary = [] \<or> (startsWith summary ''{'' \<and> endsWith summary ''}''))"

definition default_summary :: "string \<Rightarrow> string" where
  "default_summary title =
     ''The article discusses '' @ title @
     ''. Unfortunately, not enough context was available to generate a detailed summary.''"

definition final_summary :: "string \<Rightarrow> string \<Rightarrow> string" where
  "final_summary title summary =
     (if needs_default summary then default_summary title else summary)"

subsection \<open>summarizeArticle\<close>

text \<open>
  \<^verbatim>\<open>summarizeArticle\<close> (lines 129 to 253). The call \<^verbatim>\<open>this.openai.responses.create\<close> is the
  parameter \<open>responses_create\<close>; of the request it is given the two values that vary,
  the title and the content. Everything happens inside one \<^verbatim>\<open>try\<close>: \<open>summary_response\<close>
  is what the method returns for a title and an outcome of the call, the record of the
  \<^verbatim>\<open>catch\<close> block (lines 247 to 251) when the call or the reading of its reply threw,
  and the record of line 244 otherwise.
\<close>

record SummaryRequest =
  request_title :: string
  request_content :: string

record SummaryResponse =
  summary_title :: string
  summary_text :: string
  summary_error :: "string option"

definition catch_summary :: "thrown \<Rightarrow> SummaryResponse" where
  "catch_summary e =
     \<lparr>summary_title = ''Error Summarizing Article'',
      summary_text = ''There was an error generating the summary.'',
      summary_error = Some (case e of Error msg \<Rightarrow> msg
                            | NotAnError \<Rightarrow> ''Unknown error summarizing article'')\<rparr>"

definition summary_response :: "string \<Rightarrow> OpenAIResponse outcome \<Rightarrow> SummaryResponse" where
  "summary_response title called =
     (case called of
        Threw e \<Rightarrow> catch_summary e
      | Returned response \<Rightarrow>
          (case extracted_summary response of
             Inl e \<Rightarrow> catch_summary e
           | Inr summary \<Rightarrow>
               \<lparr>summary_title = title,
                summary_text = final_summary title summary,
                summary_error = None\<rparr>))"

definition summarizeArticle ::
  "(SummaryRequest \<Rightarrow> OpenAIResponse outcome) \<Rightarrow> string \<Rightarrow> SummaryResponse" where
  "summarizeArticle responses_create articleText =
     (case title_and_content (truncatedText articleText) of
        (title, content) \<Rightarrow>
          summary_response title
            (responses_create \<lparr>request_title = title, request_content = content\<rparr>))"

section \<open>cohereHelper.ts: the query generator\<close>

subsection \<open>Parsing the reply\<close>

text \<open>
  \<^verbatim>\<open>/\d+\.\s*([^\n]+)/\<close> at the start of a string: the whole match. The digits are taken
  greedily; giving one back cannot help, since a digit would then stand where the dot
  is expected.
\<close>

definition numbered_at :: "string \<Rightarrow> string option" where
  "numbered_at s =
     (let ds = takeWhile is_digit s in
      if ds = [] then None
      else
        (case dropWhile is_digit s of
           [] \<Rightarrow> None
         | c # r \<Rightarrow>
             if c = CHR ''.'' then
               (case ws_line r of None \<Rightarrow> None | Some (w, g) \<Rightarrow> Some (ds @ [c] @ w @ g))
             else None))"

lemma numbered_at_nonempty: "numbered_at s = Some m \<Longrightarrow> m \<noteq> []"
  by (auto simp: numbered_at_def Let_def split: if_splits list.splits option.splits)

text \<open>
  \<^verbatim>\<open>response.match(/\d+\.\s*([^\n]+)/g)\<close>: every match, from left to right, each search
  starting where the match before it ended. No match is empty, so the search always
  moves on. \<^verbatim>\<open>match\<close> returns \<^verbatim>\<open>null\<close> where this list is empty.
\<close>

function numbered_items :: "string \<Rightarrow> string list" where
  "numbered_items [] = []"
| "numbered_items (c # cs) =
     (case numbered_at (c # cs) of
        Some m \<Rightarrow> m # numbered_items (drop (length m) (c # cs))
      | None \<Rightarrow> numbered_items cs)"
  by pat_completeness auto
termination
  by (relation "measure length") (auto dest: numbered_at_nonempty)

text \<open>\<^verbatim>\<open>item.replace(/^\d+\.\s*/, '')\<close> (line 88).\<close>

definition strip_number :: "string \<Rightarrow> string" where
  "strip_number item =
     (case dropWhile is_digit item of
        [] \<Rightarrow> item
      | c # r \<Rightarrow>
          if takeWhile is_digit item \<noteq> [] \<and> c = CHR ''.'' then dropWhile is_space r
          else item)"

text \<open>\<^verbatim>\<open>parseQueriesFromResponse\<close> (lines 82 to 104).\<close>

definition parseQueriesFromResponse :: "string \<Rightarrow> string list" where
  "parseQueriesFromResponse response =
     (let numberedList = numbered_items response in
      if numberedList \<noteq> [] then map (\<lambda>item. trim (strip_number item)) numberedList
      else
        (let lineBreakQueries =
           filter (\<lambda>line. length line > 0 \<and> \<not> startsWith line ''Here''
                          \<and> \<not> startsWith line ''Based'')
             (map trim (split_on nl response))
         in if lineBreakQueries \<noteq> [] then lineBreakQueries else [trim response]))"


subsection \<open>The helper\<close>

text \<open>
  The variables of the environment that the files read. \<^verbatim>\<open>CohereConfig\<close> and the fields of
  \<^verbatim>\<open>CohereHelper\<close>, but for the temperature, a floating-point number that is handed to the
  service as it is. The constructor (lines 30 to 42) throws when neither the configuration
  nor the environment holds a key.
\<close>

record process_env =
  COHERE_KEY :: "string option"
  COHERE_MODEL_FINE_TUNED :: "string option"
  SCRAPINGDOG_KEY :: "string option"
  OPENAI_API_KEY :: "string option"

record CohereConfig =
  cohere_apiKey :: "string option"
  cohere_model :: "string option"

record CohereHelper =
  client_token :: string
  model_name :: string

definition new_CohereHelper :: "CohereConfig \<Rightarrow> process_env \<Rightarrow> thrown + CohereHelper" where
  "new_CohereHelper config env =
     (let apiKey' = or_else (cohere_apiKey config) (or_else (COHERE_KEY env) []);
          model = or_else (cohere_model config)
                    (or_else (COHERE_MODEL_FINE_TUNED env) ''command-a-03-2025'')
      in if apiKey' = [] then
           Inl (Error ''Cohere API key is not configured. Please set COHERE_KEY in .env.local'')
         else Inr \<lparr>client_token = apiKey', model_name = model\<rparr>)"

text \<open>
  \<^verbatim>\<open>generateSearchQueries\<close> (lines 50 to 74). The call \<^verbatim>\<open>this.client.chat\<close> is the parameter
  \<open>chat\<close>, which is given the model and the message and throws or returns the text of the
  reply.
\<close>

record ChatRequest =
  chat_model :: string
  chat_message :: string

record QueryGenerationResponse =
  queries :: "string list"
  generation_error :: "string option"

definition generateSearchQueries ::
  "CohereHelper \<Rightarrow> (ChatRequest \<Rightarrow> string outcome) \<Rightarrow> string list \<Rightarrow> QueryGenerationResponse" where
  "generateSearchQueries this chat interests =
     (let interestsString = join '', '' interests in
      case chat \<lparr>chat_model = model_name this,
             chat_message =
               ''Generate 5 Google Scholar search queries based on these interests: '' @
               interestsString\<rparr> of
        Returned reply_text \<Rightarrow>
          \<lparr>queries = parseQueriesFromResponse reply_text, generation_error = None\<rparr>
      | Threw e \<Rightarrow>
          \<lparr>queries = [],
           generation_error = Some (case e of Error msg \<Rightarrow> msg
                                    | NotAnError \<Rightarrow> ''Unknown error generating search queries'')\<rparr>)"

subsection \<open>The route /api/cohere\<close>

text \<open>
  The handler \<^verbatim>\<open>POST\<close> of the route. \<^verbatim>\<open>request.json()\<close> throws or returns the body, whose
  \<^verbatim>\<open>interests\<close> are absent (or falsy), something that is not an array, or an array of
  strings. The reply is a status with a body, which is the object \<^verbatim>\<open>{error}\<close> or the result
  of \<^verbatim>\<open>generateSearchQueries\<close>. The helper is made from the environment alone.
\<close>

datatype cohere_reply = ErrorBody string | ResultBody QueryGenerationResponse

definition cohere_POST ::
  "process_env \<Rightarrow> (ChatRequest \<Rightarrow> string outcome) \<Rightarrow> string list field outcome
   \<Rightarrow> nat \<times> cohere_reply" where
  "cohere_POST env chat request_json =
     (case request_json of
        Threw e \<Rightarrow>
          (500, ErrorBody (case e of Error msg \<Rightarrow> msg | NotAnError \<Rightarrow> ''Unknown error''))
      | Returned interests \<Rightarrow>
          (case interests of
             Present (i # others) \<Rightarrow>
               (case new_CohereHelper \<lparr>cohere_apiKey = None, cohere_model = None\<rparr> env of
                  Inl e \<Rightarrow>
                    (500, ErrorBody (case e of Error msg \<Rightarrow> msg
                                     | NotAnError \<Rightarrow> ''Unknown error''))
                | Inr cohereHelper \<Rightarrow>
                    (200, ResultBody (generateSearchQueries cohereHelper chat (i # others))))
           | _ \<Rightarrow> (400, ErrorBody ''Interests must be a non-empty array'')))"

section \<open>page.tsx: the pipeline\<close>

text \<open>
  What the page reads of the replies of the three routes. Of the reply of \<^verbatim>\<open>/api/cohere\<close>
  it reads \<^verbatim>\<open>queries\<close>, which the route leaves out of an error reply. Of the reply of
  \<^verbatim>\<open>/api/scholar\<close> it reads \<^verbatim>\<open>scholar_results\<close>, tested for being there, for being an
  array and for its length; an element may be \<^verbatim>\<open>null\<close>, and its title may be missing or
  empty. Of the reply of \<^verbatim>\<open>/api/summarize\<close> it reads the flag \<^verbatim>\<open>ok\<close>, the title and the
  summary.
\<close>

record CohereData =
  data_queries :: "string list option"

record PageResult =
  page_title :: "string option"
  page_snippet :: "string option"
  page_title_link :: "string option"

record ScholarData =
  page_scholar_results :: "PageResult option list field"

record SummaryData =
  data_title :: "string option"
  data_summary :: "string option"

record Article =
  article_title :: string
  article_summary :: string
  link :: "string option"
  originalTitle :: "string option"

record page_state =
  article :: "Article option"
  loading :: bool

text \<open>
  The surroundings of a run: \<^verbatim>\<open>fetch\<close> of each route followed by \<^verbatim>\<open>json()\<close>, which throws
  or returns the data (for \<^verbatim>\<open>/api/summarize\<close> with the flag \<^verbatim>\<open>ok\<close> of the response), and the
  two indices that \<^verbatim>\<open>Math.floor(Math.random() * length)\<close> yields, each given the length. The
  requests of a run are recorded as they are made.
\<close>

record surroundings =
  fetch_cohere :: "string list \<Rightarrow> CohereData outcome"
  fetch_scholar :: "string \<Rightarrow> ScholarData outcome"
  fetch_summarize :: "string \<Rightarrow> (bool \<times> SummaryData) outcome"
  randomIndex :: "nat \<Rightarrow> nat"
  randomResultIndex :: "nat \<Rightarrow> nat"

datatype request_made = ToCohere "string list" | ToScholar string | ToSummarize string

text \<open>\<^verbatim>\<open>selectedQuery.replace(/\*\*/g, '')\<close> (line 85).\<close>

fun remove_emphasis :: "string \<Rightarrow> string" where
  "remove_emphasis (a # b # cs) =
     (if a = CHR ''*'' \<and> b = CHR ''*'' then remove_emphasis cs
      else a # remove_emphasis (b # cs))"
| "remove_emphasis cs = cs"

text \<open>Reading an element of an array: \<^verbatim>\<open>undefined\<close> beyond its end.\<close>

definition element :: "'a list \<Rightarrow> nat \<Rightarrow> 'a option" where
  "element xs i = (if i < length xs then Some (xs ! i) else None)"

text \<open>The article of the \<^verbatim>\<open>catch\<close> block (lines 150 to 155).\<close>

definition error_article :: Article where
  "error_article =
     \<lparr>article_title = ''Error Generating Article'',
      article_summary =
        ''An error occurred while generating the article. Please try again later.'',
      link = None, originalTitle = None\<rparr>"

text \<open>The article of lines 72 to 75.\<close>

definition no_queries_article :: Article where
  "no_queries_article =
     \<lparr>article_title = ''No Queries Generated'',
      article_summary = ''We couldn't generate any queries based on your interests. Please try with different interests.'',
      link = None, originalTitle = None\<rparr>"

text \<open>
  \<^verbatim>\<open>generateArticle\<close> (lines 55 to 159): the state of the page after the run, and the
  requests made. Every path after the first test ends with \<^verbatim>\<open>loading\<close> false, by the
  statement before the \<^verbatim>\<open>return\<close> or by the \<^verbatim>\<open>finally\<close> block. A value that is
  \<^verbatim>\<open>undefined\<close> where a string method is called throws, into the \<^verbatim>\<open>catch\<close> block.
\<close>

definition generateArticle ::
  "surroundings \<Rightarrow> page_state \<Rightarrow> string list \<Rightarrow> page_state \<times> request_made list" where
  "generateArticle world state interests =
     (if length interests = 0 then (state, [])
      else
        (case fetch_cohere world interests of
           Threw e \<Rightarrow> (\<lparr>article = Some error_article, loading = False\<rparr>, [ToCohere interests])
         | Returned cohereData \<Rightarrow>
           (case data_queries cohereData of
              None \<Rightarrow>
                (\<lparr>article = Some no_queries_article, loading = False\<rparr>, [ToCohere interests])
            | Some [] \<Rightarrow>
                (\<lparr>article = Some no_queries_article, loading = False\<rparr>, [ToCohere interests])
            | Some (q # qs) \<Rightarrow>
              (case element (q # qs) (randomIndex world (length (q # qs))) of
                 None \<Rightarrow>
                   (\<lparr>article = Some error_article, loading = False\<rparr>, [ToCohere interests])
               | Some selectedQuery \<Rightarrow>
                 (let cleanQuery = remove_emphasis selectedQuery;
                      made = [ToCohere interests, ToScholar cleanQuery]
                  in case fetch_scholar world cleanQuery of
                    Threw e \<Rightarrow> (\<lparr>article = Some error_article, loading = False\<rparr>, made)
                  | Returned scholarData \<Rightarrow>
                    (case page_scholar_results scholarData of
                       Absent \<Rightarrow>
                         (\<lparr>article = Some
                             \<lparr>article_title = ''No Results Found for: '' @ cleanQuery,
                              article_summary =
                                ''We couldn't find any scholarly articles for the query: \"'' @
                                cleanQuery @ ''\". Please try with different interests.'',
                              link = None, originalTitle = None\<rparr>,
                           loading = False\<rparr>,
                          made)
                     | Present [] \<Rightarrow>
                         (\<lparr>article = Some
                             \<lparr>article_title = ''No Results Found for: '' @ cleanQuery,
                              article_summary =
                                ''We couldn't find any scholarly articles for the query: \"'' @
                                cleanQuery @ ''\". Please try with different interests.'',
                              link = None, originalTitle = None\<rparr>,
                           loading = False\<rparr>,
                          made)
                     | Mistyped \<Rightarrow>
                         (\<lparr>article = Some
                             \<lparr>article_title = ''Invalid Results Format for: '' @ cleanQuery,
                              article_summary =
                                ''The search results were not in the expected format. Please try again.'',
                              link = None, originalTitle = None\<rparr>,
                           loading = False\<rparr>,
                          made)
                     | Present (r # rs) \<Rightarrow>
                       (case (case element (r # rs) (randomResultIndex world (length (r # rs))) of
                                None \<Rightarrow> None | Some selected \<Rightarrow> selected) of
                          None \<Rightarrow>
                            (\<lparr>article = Some
                                \<lparr>article_title = ''Error Processing Results'',
                                 article_summary =
                                   ''We encountered an error while processing the search results. Please try again.'',
                                 link = None, originalTitle = None\<rparr>,
                              loading = False\<rparr>,
                             made)
                        | Some selectedResult \<Rightarrow>
                          (if \<not> truthy (page_title selectedResult) then
                             (\<lparr>article = Some
                                 \<lparr>article_title = ''Error Processing Results'',
                                  article_summary =
                                    ''We encountered an error while processing the search results. Please try again.'',
                                  link = None, originalTitle = None\<rparr>,
                               loading = False\<rparr>,
                              made)
                           else
                             (let resultTitle = or_else (page_title selectedResult) [];
                                  articleText =
                                    ''title: '' @ resultTitle @ [nl] @
                                    or_else (page_snippet selectedResult) [];
                                  made' = made @ [ToSummarize articleText]
                              in case fetch_summarize world articleText of
                                Threw e \<Rightarrow>
                                  (\<lparr>article = Some error_article, loading = False\<rparr>, made')
                              | Returned (ok, summaryData) \<Rightarrow>
                                  if \<not> ok then
                                    (\<lparr>article = Some error_article, loading = False\<rparr>, made')
                                  else
                                    (\<lparr>article = Some
                                        \<lparr>article_title =
                                           or_else (data_title summaryData) resultTitle,
                                         article_summary =
                                           or_else (data_summary summaryData)
                                             ''No summary available.'',
                                         link = page_title_link selectedResult,
                                         originalTitle = Some resultTitle\<rparr>,
                                      loading = False\<rparr>,
                                     made'))))))))))"

text \<open>What the page reads of a reply of the route \<^verbatim>\<open>/api/cohere\<close>: the queries of a result,
  and no queries in an error reply.\<close>

definition reply_data :: "cohere_reply \<Rightarrow> CohereData" where
  "reply_data reply =
     (case reply of
        ErrorBody message \<Rightarrow> \<lparr>data_queries = None\<rparr>
      | ResultBody result \<Rightarrow> \<lparr>data_queries = Some (queries result)\<rparr>)"

section \<open>Example environments\<close>

text \<open>A configured helper, and a search index that answers the first request of a run
  with an empty result list and is unreachable afterwards.\<close>

definition example_helper :: ScholarHelper where
  "example_helper = \<lparr>apiKey = ''key'', resultsPerPage = 20, language = ''en'',
     baseUrl = ''https://api.scrapingdog.com/google_scholar/''\<rparr>"

definition empty_reply :: "AxiosResponse outcome" where
  "empty_reply = Returned \<lparr>resp_status = 200,
     resp_data = \<lparr>data_search_details = None, data_scholar_results = Some []\<rparr>\<rparr>"

definition empty_then_down :: "nat \<Rightarrow> params \<Rightarrow> AxiosResponse outcome" where
  "empty_then_down n p = (if n = 0 then empty_reply else Threw (Error ''Network Error''))"

text \<open>A model that answers every request with a plain summary, one whose reply has an
  empty \<^verbatim>\<open>output_text\<close> beside an \<^verbatim>\<open>output\<close> array with text, and a reply without any of
  the four properties.\<close>

definition plain_reply :: OpenAIResponse where
  "plain_reply = \<lparr>output_text = Present ''A summary.'', output_items = Absent,
     response_text = Absent, choices = Absent\<rparr>"

definition answers_plainly :: "SummaryRequest \<Rightarrow> OpenAIResponse outcome" where
  "answers_plainly request = Returned plain_reply"

definition empty_text_reply :: OpenAIResponse where
  "empty_text_reply =
     \<lparr>output_text = Present [],
      output_items = Present [Some \<lparr>item_content = Present
        [Some \<lparr>content_type = Some ''output_text'', content_text = Some ''hello''\<rparr>]\<rparr>],
      response_text = Absent, choices = Absent\<rparr>"

definition shapeless_reply :: OpenAIResponse where
  "shapeless_reply =
     \<lparr>output_text = Absent, output_items = Absent, response_text = Absent, choices = Absent\<rparr>"

definition answers_with_empty_text :: "SummaryRequest \<Rightarrow> OpenAIResponse outcome" where
  "answers_with_empty_text request = Returned empty_text_reply"

text \<open>An environment without any key, surroundings in which no queries are generated, and
  replies of the query model with and without numbers.\<close>

definition no_env :: process_env where
  "no_env = \<lparr>COHERE_KEY = None, COHERE_MODEL_FINE_TUNED = None, SCRAPINGDOG_KEY = None,
     OPENAI_API_KEY = None\<rparr>"

definition no_queries_world :: surroundings where
  "no_queries_world =
     \<lparr>fetch_cohere = (\<lambda>interests. Returned \<lparr>data_queries = Some []\<rparr>),
      fetch_scholar = (\<lambda>q. Threw NotAnError),
      fetch_summarize = (\<lambda>t. Threw NotAnError),
      randomIndex = (\<lambda>n. 0), randomResultIndex = (\<lambda>n. 0)\<rparr>"



section \<open>Properties of the search provider\<close>

lemma generalQuery_example: "generalQuery ''the quantum computing'' = ''quantum computing''"
  by (simp add: generalQuery_def keywords_of_def is_space_def is_quote_def)

lemma keywords_example: "keywords_of ''the quantum computing'' = [''quantum'', ''computing'']"
  by (simp add: keywords_of_def is_space_def is_quote_def)

text \<open>A call with the broadened query sends at most one request and answers from it.\<close>

lemma searchArticles_no_retry:
  assumes "keywords_of query = [] \<or> generalQuery query = query" and "apiKey this \<noteq> []"
  shows "searchArticles this axios_get sent query page =
     (case axios_get (length sent) (request_params this query page) of
        Threw e \<Rightarrow> catch_response query e
      | Returned response \<Rightarrow>
          if resp_status response \<noteq> 200 then
            catch_response query (Error
              (''Request failed with status code: '' @ show_nat (resp_status response)))
          else
            \<lparr>search_details = data_search_details (resp_data response),
             scholar_results =
               Some (case data_scholar_results (resp_data response) of
                       None \<Rightarrow> [] | Some rs \<Rightarrow> rs),
             search_error = None\<rparr>,
      sent @ [request_params this query page])"
  using assms
  by (subst searchArticles.simps) (auto split: outcome.splits)

lemma searchArticles_no_key:
  "apiKey this = [] \<Longrightarrow> searchArticles this axios_get sent query page =
     (catch_response query (Error
        ''ScrapingDog API key is not configured. Please set SCRAPINGDOG_KEY in .env.local''),
      sent)"
  by (subst searchArticles.simps) simp

lemma searchArticles_retry:
  assumes "apiKey this \<noteq> []"
    and "axios_get (length sent) (request_params this query page) = Returned response"
    and "resp_status response = 200"
    and "data_scholar_results (resp_data response) = Some []"
    and "keywords_of query \<noteq> []" and "generalQuery query \<noteq> query"
  shows "searchArticles this axios_get sent query page =
     searchArticles this axios_get (sent @ [request_params this query page])
       (generalQuery query) page"
  using assms by (subst searchArticles.simps) simp

lemma generalQuery_no_retry:
  "keywords_of (generalQuery query) = [] \<or> generalQuery (generalQuery query) = generalQuery query"
  by (simp add: generalQuery_fixed)

lemma empty_then_down_run:
  "searchArticles example_helper empty_then_down [] ''the quantum computing'' 0 =
     (catch_response ''quantum computing'' (Error ''Network Error''),
      [request_params example_helper ''the quantum computing'' 0,
       request_params example_helper ''quantum computing'' 0])"
proof -
  have key: "apiKey example_helper \<noteq> []"
    by (simp add: example_helper_def)
  have "searchArticles example_helper empty_then_down [] ''the quantum computing'' 0 =
      searchArticles example_helper empty_then_down
        ([] @ [request_params example_helper ''the quantum computing'' 0])
        (generalQuery ''the quantum computing'') 0"
    using key
    by (intro searchArticles_retry [where response = "\<lparr>resp_status = 200,
        resp_data = \<lparr>data_search_details = None, data_scholar_results = Some []\<rparr>\<rparr>"])
      (simp_all add: empty_then_down_def empty_reply_def generalQuery_example keywords_example)
  moreover have "keywords_of ''quantum computing'' = [] \<or>
      generalQuery ''quantum computing'' = ''quantum computing''"
    using generalQuery_no_retry [of "''the quantum computing''"]
    by (simp add: generalQuery_example)
  ultimately show ?thesis
    using key by (simp add: searchArticles_no_retry generalQuery_example empty_then_down_def)
qed

text \<open>
  Claim C10. The keyword broadening of \<^verbatim>\<open>searchArticles\<close> (strip the quote characters,
  split on white space, keep the tokens longer than 3 characters, take the first 3, join
  them with single spaces) is idempotent: applied to its own output it returns that
  output unchanged. Hence the emptiness check of the broadened retry never broadens again:
  a search for a broadened query sends at most one request.
\<close>

theorem generalQuery_idempotent:
  "generalQuery (generalQuery query) = generalQuery query
   \<and> length (snd (searchArticles this axios_get sent (generalQuery query) page)) \<le>
       Suc (length sent)"
proof
  show "generalQuery (generalQuery query) = generalQuery query"
    by (rule generalQuery_fixed)
  show "length (snd (searchArticles this axios_get sent (generalQuery query) page)) \<le>
      Suc (length sent)"
  proof (cases "apiKey this = []")
    case True
    then show ?thesis
      by (simp add: searchArticles_no_key)
  next
    case False
    show ?thesis
      by (simp add: searchArticles_no_retry [OF generalQuery_no_retry False])
  qed
qed

theorem generalQuery_idempotent_witness:
  "generalQuery (generalQuery ''the \"quantum\" computing'') = ''quantum computing''"
  using generalQuery_idempotent [of "''the \"quantum\" computing''", THEN conjunct1]
  by (simp add: generalQuery_def keywords_of_def is_space_def is_quote_def)

text \<open>
  Claim C1. When the first search returns status 200 and a result list that is present
  but empty, \<^verbatim>\<open>searchArticles\<close> sends exactly one further request, with the broadened
  query at the same page, if some token qualifies as a keyword and the broadened query
  differs from the query; the response is the one of that retry alone, whatever it
  returns, and there is no third request. Otherwise (no token qualifies, or the broadened
  query is the query) it sends no further request and returns the empty result.
\<close>

theorem searchArticles_broadens_once:
  assumes key: "apiKey this \<noteq> []"
    and first: "axios_get (length sent) (request_params this query page) = Returned response"
    and ok: "resp_status response = 200"
    and empty: "data_scholar_results (resp_data response) = Some []"
  shows "if keywords_of query \<noteq> [] \<and> generalQuery query \<noteq> query
     then searchArticles this axios_get sent query page =
            searchArticles this axios_get (sent @ [request_params this query page])
              (generalQuery query) page
        \<and> snd (searchArticles this axios_get sent query page) =
            sent @ [request_params this query page,
                    request_params this (generalQuery query) page]
        \<and> fst (searchArticles this axios_get sent query page) =
            (case axios_get (Suc (length sent)) (request_params this (generalQuery query) page) of
               Threw e \<Rightarrow> catch_response (generalQuery query) e
             | Returned retry \<Rightarrow>
                 if resp_status retry \<noteq> 200 then
                   catch_response (generalQuery query) (Error
                     (''Request failed with status code: '' @ show_nat (resp_status retry)))
                 else
                   \<lparr>search_details = data_search_details (resp_data retry),
                    scholar_results =
                      Some (case data_scholar_results (resp_data retry) of
                              None \<Rightarrow> [] | Some rs \<Rightarrow> rs),
                    search_error = None\<rparr>)
     else searchArticles this axios_get sent query page =
            (\<lparr>search_details = data_search_details (resp_data response),
              scholar_results = Some [], search_error = None\<rparr>,
             sent @ [request_params this query page])"
proof (cases "keywords_of query \<noteq> [] \<and> generalQuery query \<noteq> query")
  case True
  have step: "searchArticles this axios_get sent query page =
      searchArticles this axios_get (sent @ [request_params this query page])
        (generalQuery query) page"
    using key first ok empty True by (subst searchArticles.simps) simp
  have fixed: "keywords_of (generalQuery query) = [] \<or>
      generalQuery (generalQuery query) = generalQuery query"
    by (simp add: generalQuery_fixed)
  show ?thesis
    using True step searchArticles_no_retry [OF fixed key]
    by (simp split: outcome.splits)
next
  case False
  then have "keywords_of query = [] \<or> generalQuery query = query"
    by blast
  from searchArticles_no_retry [OF this key] False first ok empty
  show ?thesis by simp
qed

theorem searchArticles_broadens_once_witness:
  "snd (searchArticles example_helper empty_then_down [] ''the quantum computing'' 0) =
     [request_params example_helper ''the quantum computing'' 0,
      request_params example_helper ''quantum computing'' 0]
   \<and> fst (searchArticles example_helper empty_then_down [] ''the quantum computing'' 0) =
       catch_response ''quantum computing'' (Error ''Network Error'')
   \<and> searchArticles example_helper (\<lambda>n p. empty_reply) [] ''quantum computing'' 0 =
       (\<lparr>search_details = None, scholar_results = Some [], search_error = None\<rparr>,
        [request_params example_helper ''quantum computing'' 0])"
proof -
  let ?reply = "\<lparr>resp_status = 200,
      resp_data = \<lparr>data_search_details = None, data_scholar_results = Some []\<rparr>\<rparr>"
  have a: "generalQuery ''quantum computing'' = ''quantum computing''"
    using generalQuery_fixed [of "''the quantum computing''"] by (simp add: generalQuery_example)
  have key: "apiKey example_helper \<noteq> []"
    by (simp add: example_helper_def)
  have ok: "resp_status ?reply = 200"
    and empty: "data_scholar_results (resp_data ?reply) = Some []"
    by simp_all
  have first: "empty_then_down (length ([] :: params list))
      (request_params example_helper ''the quantum computing'' 0) = Returned ?reply"
    by (simp add: empty_then_down_def empty_reply_def)
  have cond: "keywords_of ''the quantum computing'' \<noteq> [] \<and>
      generalQuery ''the quantum computing'' \<noteq> ''the quantum computing''"
    by (simp add: generalQuery_example keywords_example)
  note run = searchArticles_broadens_once [of example_helper empty_then_down "[]"
      "''the quantum computing''" 0 ?reply, OF key first ok empty, unfolded if_P [OF cond]]
  have one: "snd (searchArticles example_helper empty_then_down [] ''the quantum computing'' 0) =
      [request_params example_helper ''the quantum computing'' 0,
       request_params example_helper ''quantum computing'' 0]"
    using run [THEN conjunct2, THEN conjunct1] by (simp add: generalQuery_example)
  have two: "fst (searchArticles example_helper empty_then_down [] ''the quantum computing'' 0) =
      catch_response ''quantum computing'' (Error ''Network Error'')"
    using run [THEN conjunct2, THEN conjunct2]
    by (simp add: generalQuery_example empty_then_down_def)
  have second: "(\<lambda>n p. empty_reply) (length ([] :: params list))
      (request_params example_helper ''quantum computing'' 0) = Returned ?reply"
    by (simp add: empty_reply_def)
  from searchArticles_broadens_once [of example_helper "\<lambda>n p. empty_reply" "[]"
      "''quantum computing''" 0 ?reply, OF key second ok empty]
  have three: "searchArticles example_helper (\<lambda>n p. empty_reply) [] ''quantum computing'' 0 =
      (\<lparr>search_details = None, scholar_results = Some [], search_error = None\<rparr>,
       [request_params example_helper ''quantum computing'' 0])"
    by (simp add: a)
  from one two three show ?thesis
    by blast
qed


text \<open>
  Claim C6, as the code has it. Every failure of a request (no credential, a thrown
  error, a status other than 200) makes \<^verbatim>\<open>searchArticles\<close> return, without throwing, the
  response of its \<^verbatim>\<open>catch\<close> block: \<^verbatim>\<open>search_details\<close> with the query of the failing
  attempt and the count \<^verbatim>\<open>"0 results"\<close>, an empty result list and an error string. The
  query is the original one when the first request fails, and the broadened one when
  the retry fails.
\<close>

theorem searchArticles_failure:
  "(apiKey this = [] \<longrightarrow>
      searchArticles this axios_get sent query page =
        (catch_response query (Error
           ''ScrapingDog API key is not configured. Please set SCRAPINGDOG_KEY in .env.local''),
         sent))
   \<and> (apiKey this \<noteq> [] \<and>
       axios_get (length sent) (request_params this query page) = Threw e \<longrightarrow>
      searchArticles this axios_get sent query page =
        (catch_response query e, sent @ [request_params this query page]))
   \<and> (apiKey this \<noteq> [] \<and>
       axios_get (length sent) (request_params this query page) = Returned response \<and>
       resp_status response \<noteq> 200 \<longrightarrow>
      searchArticles this axios_get sent query page =
        (catch_response query (Error
           (''Request failed with status code: '' @ show_nat (resp_status response))),
         sent @ [request_params this query page]))
   \<and> (apiKey this \<noteq> [] \<and>
       axios_get (length sent) (request_params this query page) = Returned response \<and>
       resp_status response = 200 \<and>
       data_scholar_results (resp_data response) = Some [] \<and>
       keywords_of query \<noteq> [] \<and> generalQuery query \<noteq> query \<longrightarrow>
      (axios_get (Suc (length sent)) (request_params this (generalQuery query) page) = Threw e
         \<longrightarrow> fst (searchArticles this axios_get sent query page) =
               catch_response (generalQuery query) e)
      \<and> (axios_get (Suc (length sent)) (request_params this (generalQuery query) page) =
            Returned retry \<and> resp_status retry \<noteq> 200
         \<longrightarrow> fst (searchArticles this axios_get sent query page) =
               catch_response (generalQuery query) (Error
                 (''Request failed with status code: '' @ show_nat (resp_status retry)))))
   \<and> search_details (catch_response query e) =
       Some \<lparr>details_query = query, number_of_results = ''0 results''\<rparr>
   \<and> scholar_results (catch_response query e) = Some []
   \<and> search_error (catch_response query e) \<noteq> None"
proof (intro conjI impI; (elim conjE)?)
  show "apiKey this = [] \<Longrightarrow> searchArticles this axios_get sent query page =
        (catch_response query (Error
           ''ScrapingDog API key is not configured. Please set SCRAPINGDOG_KEY in .env.local''),
         sent)"
    by (rule searchArticles_no_key)
next
  assume "apiKey this \<noteq> []"
    and "axios_get (length sent) (request_params this query page) = Threw e"
  then show "searchArticles this axios_get sent query page =
      (catch_response query e, sent @ [request_params this query page])"
    by (subst searchArticles.simps) simp
next
  assume "apiKey this \<noteq> []"
    and "axios_get (length sent) (request_params this query page) = Returned response"
    and "resp_status response \<noteq> 200"
  then show "searchArticles this axios_get sent query page =
      (catch_response query (Error
         (''Request failed with status code: '' @ show_nat (resp_status response))),
       sent @ [request_params this query page])"
    by (subst searchArticles.simps) simp
next
  assume a: "apiKey this \<noteq> []"
      "axios_get (length sent) (request_params this query page) = Returned response"
      "resp_status response = 200" "data_scholar_results (resp_data response) = Some []"
      "keywords_of query \<noteq> []" "generalQuery query \<noteq> query"
    and b: "axios_get (Suc (length sent)) (request_params this (generalQuery query) page) = Threw e"
  show "fst (searchArticles this axios_get sent query page) =
      catch_response (generalQuery query) e"
    using a b searchArticles_retry [of this axios_get sent query page response]
    by (simp add: searchArticles_no_retry [OF generalQuery_no_retry a(1)])
next
  assume a: "apiKey this \<noteq> []"
      "axios_get (length sent) (request_params this query page) = Returned response"
      "resp_status response = 200" "data_scholar_results (resp_data response) = Some []"
      "keywords_of query \<noteq> []" "generalQuery query \<noteq> query"
    and b: "axios_get (Suc (length sent)) (request_params this (generalQuery query) page) =
      Returned retry" "resp_status retry \<noteq> 200"
  show "fst (searchArticles this axios_get sent query page) =
      catch_response (generalQuery query) (Error
        (''Request failed with status code: '' @ show_nat (resp_status retry)))"
    using a b searchArticles_retry [of this axios_get sent query page response]
    by (simp add: searchArticles_no_retry [OF generalQuery_no_retry a(1)])
qed (simp_all add: catch_response_def)

text \<open>The retry failing after an empty first answer: the response names the broadened
  query, not the original one.\<close>

theorem searchArticles_failure_counterexample:
  "search_error (fst (searchArticles example_helper empty_then_down []
       ''the quantum computing'' 0)) = Some ''Network Error''
   \<and> search_details (fst (searchArticles example_helper empty_then_down []
       ''the quantum computing'' 0)) \<noteq>
     Some \<lparr>details_query = ''the quantum computing'', number_of_results = ''0 results''\<rparr>"
  by (simp add: empty_then_down_run catch_response_def)

theorem searchArticles_failure_witness:
  "fst (searchArticles (example_helper\<lparr>apiKey := []\<rparr>) empty_then_down [] ''graph theory'' 0) =
     \<lparr>search_details = Some \<lparr>details_query = ''graph theory'', number_of_results = ''0 results''\<rparr>,
      scholar_results = Some [],
      search_error = Some
        ''ScrapingDog API key is not configured. Please set SCRAPINGDOG_KEY in .env.local''\<rparr>
   \<and> fst (searchArticles example_helper empty_then_down [] ''the quantum computing'' 0) =
     \<lparr>search_details = Some \<lparr>details_query = ''quantum computing'', number_of_results = ''0 results''\<rparr>,
      scholar_results = Some [], search_error = Some ''Network Error''\<rparr>"
proof -
  note t = searchArticles_failure [of "example_helper\<lparr>apiKey := []\<rparr>" empty_then_down "[]"
      "''graph theory''" 0]
  have one: "fst (searchArticles (example_helper\<lparr>apiKey := []\<rparr>) empty_then_down []
      ''graph theory'' 0) = catch_response ''graph theory'' (Error
        ''ScrapingDog API key is not configured. Please set SCRAPINGDOG_KEY in .env.local'')"
    using t [THEN conjunct1] by simp
  note u = searchArticles_failure [of example_helper empty_then_down "[]"
      "''the quantum computing''" 0 "Error ''Network Error''"
      "\<lparr>resp_status = 200,
        resp_data = \<lparr>data_search_details = None, data_scholar_results = Some []\<rparr>\<rparr>"]
  have two: "fst (searchArticles example_helper empty_then_down [] ''the quantum computing'' 0) =
      catch_response ''quantum computing'' (Error ''Network Error'')"
    using u [THEN conjunct2, THEN conjunct2, THEN conjunct2, THEN conjunct1]
    by (simp add: example_helper_def empty_then_down_def empty_reply_def generalQuery_example
        keywords_example)
  from one two show ?thesis
    by (simp add: catch_response_def)
qed

text \<open>
  Claim C7. \<^verbatim>\<open>searchWithAdvancedQuery\<close> searches for the interest itself when there is one
  interest, for \<^verbatim>\<open>A AND B\<close> when there are two, and for the first two joined by AND, in
  parentheses, AND the remaining ones joined by OR, in parentheses, when there are three
  or more; for four interests a, b, c, d the query is \<^verbatim>\<open>(a AND b) AND (c OR d)\<close>.
\<close>

theorem searchWithAdvancedQuery_query:
  "searchWithAdvancedQuery this axios_get sent [a] page =
     searchArticles this axios_get sent a page
   \<and> searchWithAdvancedQuery this axios_get sent [a, b] page =
     searchArticles this axios_get sent (a @ '' AND '' @ b) page
   \<and> searchWithAdvancedQuery this axios_get sent (a # b # c # cs) page =
     searchArticles this axios_get sent
       (''('' @ a @ '' AND '' @ b @ '') AND ('' @ join '' OR '' (c # cs) @ '')'') page
   \<and> searchWithAdvancedQuery this axios_get sent [a, b, c, d] page =
     searchArticles this axios_get sent
       (''('' @ a @ '' AND '' @ b @ '') AND ('' @ c @ '' OR '' @ d @ '')'') page"
  by (simp add: searchWithAdvancedQuery_def)

theorem searchWithAdvancedQuery_query_witness:
  "fst (searchWithAdvancedQuery (example_helper\<lparr>apiKey := []\<rparr>) empty_then_down []
      [''a'', ''b'', ''c'', ''d''] 0) =
     catch_response ''(a AND b) AND (c OR d)'' (Error
        ''ScrapingDog API key is not configured. Please set SCRAPINGDOG_KEY in .env.local'')"
  using searchWithAdvancedQuery_query [of "example_helper\<lparr>apiKey := []\<rparr>" empty_then_down "[]"
      "''a''" 0 "''b''" "''c''" "[''d'']" "''d''", THEN conjunct2, THEN conjunct2, THEN conjunct2]
  by (simp add: searchArticles_no_key)


section \<open>Properties of the summarizer\<close>

lemma lower_cases:
  "toLowerCase_char c = p \<Longrightarrow> c = p \<or> (c, p) \<in> set (zip upper_case lower_case)"
  unfolding toLowerCase_char_def
  by (cases "map_of (zip upper_case lower_case) c") (auto dest: map_of_SomeD)

lemma canonical_cases:
  "canonicalize c = p \<Longrightarrow> c = p \<or> (c, p) \<in> set (zip lower_case upper_case)"
  unfolding canonicalize_def
  by (cases "map_of (zip lower_case upper_case) c") (auto dest: map_of_SomeD)

lemma lower_t: "toLowerCase_char c = CHR ''t'' \<longleftrightarrow> c = CHR ''t'' \<or> c = CHR ''T''"
proof
  assume "toLowerCase_char c = CHR ''t''"
  from lower_cases [OF this] show "c = CHR ''t'' \<or> c = CHR ''T''"
    by (simp add: upper_case_def lower_case_def, (blast)?)
next
  assume "c = CHR ''t'' \<or> c = CHR ''T''"
  then show "toLowerCase_char c = CHR ''t''"
    by (elim disjE) (simp_all add: toLowerCase_char_def upper_case_def lower_case_def)
qed

lemma canonical_t: "canonicalize c = CHR ''T'' \<longleftrightarrow> c = CHR ''t'' \<or> c = CHR ''T''"
proof
  assume "canonicalize c = CHR ''T''"
  from canonical_cases [OF this] show "c = CHR ''t'' \<or> c = CHR ''T''"
    by (simp add: upper_case_def lower_case_def, (blast)?)
next
  assume "c = CHR ''t'' \<or> c = CHR ''T''"
  then show "canonicalize c = CHR ''T''"
    by (elim disjE) (simp_all add: canonicalize_def upper_case_def lower_case_def)
qed

lemma lower_i: "toLowerCase_char c = CHR ''i'' \<longleftrightarrow> c = CHR ''i'' \<or> c = CHR ''I''"
proof
  assume "toLowerCase_char c = CHR ''i''"
  from lower_cases [OF this] show "c = CHR ''i'' \<or> c = CHR ''I''"
    by (simp add: upper_case_def lower_case_def, (blast)?)
next
  assume "c = CHR ''i'' \<or> c = CHR ''I''"
  then show "toLowerCase_char c = CHR ''i''"
    by (elim disjE) (simp_all add: toLowerCase_char_def upper_case_def lower_case_def)
qed

lemma canonical_i: "canonicalize c = CHR ''I'' \<longleftrightarrow> c = CHR ''i'' \<or> c = CHR ''I''"
proof
  assume "canonicalize c = CHR ''I''"
  from canonical_cases [OF this] show "c = CHR ''i'' \<or> c = CHR ''I''"
    by (simp add: upper_case_def lower_case_def, (blast)?)
next
  assume "c = CHR ''i'' \<or> c = CHR ''I''"
  then show "canonicalize c = CHR ''I''"
    by (elim disjE) (simp_all add: canonicalize_def upper_case_def lower_case_def)
qed

lemma lower_l: "toLowerCase_char c = CHR ''l'' \<longleftrightarrow> c = CHR ''l'' \<or> c = CHR ''L''"
proof
  assume "toLowerCase_char c = CHR ''l''"
  from lower_cases [OF this] show "c = CHR ''l'' \<or> c = CHR ''L''"
    by (simp add: upper_case_def lower_case_def, (blast)?)
next
  assume "c = CHR ''l'' \<or> c = CHR ''L''"
  then show "toLowerCase_char c = CHR ''l''"
    by (elim disjE) (simp_all add: toLowerCase_char_def upper_case_def lower_case_def)
qed

lemma canonical_l: "canonicalize c = CHR ''L'' \<longleftrightarrow> c = CHR ''l'' \<or> c = CHR ''L''"
proof
  assume "canonicalize c = CHR ''L''"
  from canonical_cases [OF this] show "c = CHR ''l'' \<or> c = CHR ''L''"
    by (simp add: upper_case_def lower_case_def, (blast)?)
next
  assume "c = CHR ''l'' \<or> c = CHR ''L''"
  then show "canonicalize c = CHR ''L''"
    by (elim disjE) (simp_all add: canonicalize_def upper_case_def lower_case_def)
qed

lemma lower_e: "toLowerCase_char c = CHR ''e'' \<longleftrightarrow> c = CHR ''e'' \<or> c = CHR ''E''"
proof
  assume "toLowerCase_char c = CHR ''e''"
  from lower_cases [OF this] show "c = CHR ''e'' \<or> c = CHR ''E''"
    by (simp add: upper_case_def lower_case_def, (blast)?)
next
  assume "c = CHR ''e'' \<or> c = CHR ''E''"
  then show "toLowerCase_char c = CHR ''e''"
    by (elim disjE) (simp_all add: toLowerCase_char_def upper_case_def lower_case_def)
qed

lemma canonical_e: "canonicalize c = CHR ''E'' \<longleftrightarrow> c = CHR ''e'' \<or> c = CHR ''E''"
proof
  assume "canonicalize c = CHR ''E''"
  from canonical_cases [OF this] show "c = CHR ''e'' \<or> c = CHR ''E''"
    by (simp add: upper_case_def lower_case_def, (blast)?)
next
  assume "c = CHR ''e'' \<or> c = CHR ''E''"
  then show "canonicalize c = CHR ''E''"
    by (elim disjE) (simp_all add: canonicalize_def upper_case_def lower_case_def)
qed

lemma lower_colon: "toLowerCase_char c = CHR '':'' \<longleftrightarrow> c = CHR '':''"
proof
  assume "toLowerCase_char c = CHR '':''"
  from lower_cases [OF this] show "c = CHR '':''"
    by (simp add: upper_case_def lower_case_def, (blast)?)
next
  assume "c = CHR '':''"
  then show "toLowerCase_char c = CHR '':''"
    by (simp add: toLowerCase_char_def upper_case_def lower_case_def)
qed

lemma canonical_colon: "canonicalize c = CHR '':'' \<longleftrightarrow> c = CHR '':''"
proof
  assume "canonicalize c = CHR '':''"
  from canonical_cases [OF this] show "c = CHR '':''"
    by (simp add: upper_case_def lower_case_def, (blast)?)
next
  assume "c = CHR '':''"
  then show "canonicalize c = CHR '':''"
    by (simp add: canonicalize_def upper_case_def lower_case_def)
qed

lemmas marker_chars =
  lower_t lower_i lower_l lower_e lower_colon
  canonical_t canonical_i canonical_l canonical_e canonical_colon

lemma canonical_title: "map canonicalize ''title:'' = ''TITLE:''"
  by (simp add: marker_chars)

text \<open>The two tests for the marker agree: the lower-case image starts with the marker
  where the pattern's literal matches.\<close>

lemma lower_is_canonical:
  "map toLowerCase_char t = ''title:'' \<longleftrightarrow> map canonicalize t = ''TITLE:''"
  by (auto simp: map_eq_Cons_conv marker_chars)

lemma matches_ci_title:
  "matches_ci ''title:'' s \<longleftrightarrow> startsWith (toLowerCase s) ''title:''"
proof -
  let ?n = "length ''title:''"
  have a: "map toLowerCase_char (take ?n s) = ''title:'' \<longleftrightarrow>
      map canonicalize (take ?n s) = ''TITLE:''"
    by (rule lower_is_canonical)
  have b: "?n \<le> length s" if "map canonicalize (take ?n s) = ''TITLE:''"
  proof -
    from that have "length (map canonicalize (take ?n s)) = length ''TITLE:''"
      by (rule arg_cong)
    then show ?thesis by simp
  qed
  show ?thesis
    unfolding matches_ci_def startsWith_def toLowerCase_def take_map canonical_title
    using a b by argo
qed

lemma startsWith_lower_cong:
  "take (length p) z = take (length p) z' \<Longrightarrow>
   startsWith (toLowerCase z) p = startsWith (toLowerCase z') p"
  by (simp only: startsWith_def toLowerCase_def take_map)

lemma is_space_nl [simp]: "is_space nl"
  by (simp add: is_space_def nl_def)

lemma takeWhile_line:
  "nl \<notin> set X \<Longrightarrow> rest = [] \<or> hd rest = nl \<Longrightarrow> takeWhile (\<lambda>d. d \<noteq> nl) (X @ rest) = X"
  by (cases rest) (auto simp: takeWhile_append)

lemma ws_line_nonblank:
  assumes "\<exists>c\<in>set X. \<not> is_space c" and "nl \<notin> set X" and "rest = [] \<or> hd rest = nl"
  shows "ws_line (X @ rest) = Some (takeWhile is_space X, dropWhile is_space X)"
  using assms
proof (induction X)
  case Nil
  then show ?case by simp
next
  case (Cons c X)
  show ?case
  proof (cases "is_space c")
    case True
    with Cons show ?thesis by simp
  next
    case False
    have "takeWhile (\<lambda>d. d \<noteq> nl) ((c # X) @ rest) = c # X"
      using Cons.prems by (intro takeWhile_line) auto
    with False show ?thesis by simp
  qed
qed

lemma length_marker:
  assumes "toLowerCase m = ''title:''"
  shows "length m = 6"
proof -
  from assms have "length (toLowerCase m) = length ''title:''"
    by simp
  then show ?thesis
    by (simp add: toLowerCase_def)
qed

lemma title_at_marker:
  assumes "toLowerCase m = ''title:''"
    and "\<exists>c\<in>set X. \<not> is_space c" and "nl \<notin> set X" and "rest = [] \<or> hd rest = nl"
  shows "title_at (m @ X @ rest) = Some (m @ X, dropWhile is_space X)"
proof -
  have len: "length m = 6"
    using assms(1) by (rule length_marker)
  have "startsWith (toLowerCase (m @ X @ rest)) ''title:''"
    using assms(1) len by (simp add: startsWith_def toLowerCase_def)
  then have "matches_ci ''title:'' (m @ X @ rest)"
    by (simp add: matches_ci_title)
  then show ?thesis
    using len ws_line_nonblank [OF assms(2-4)] by (simp add: title_at_def)
qed

lemma title_search_marker:
  assumes "toLowerCase m = ''title:''"
    and "\<exists>c\<in>set X. \<not> is_space c" and "nl \<notin> set X" and "rest = [] \<or> hd rest = nl"
    and "\<not> includes_str (toLowerCase (before @ take 5 m)) ''title:''"
  shows "title_search (before @ m @ X @ rest) = Some (before, m @ X, dropWhile is_space X, rest)"
  using assms(5)
proof (induction before)
  case Nil
  have "m \<noteq> []"
    using length_marker [OF assms(1)] by auto
  then obtain c cs where m: "m = c # cs"
    by (cases m) auto
  have "title_at ((c # cs) @ X @ rest) = Some ((c # cs) @ X, dropWhile is_space X)"
    using title_at_marker [OF assms(1-4)] m by simp
  then show ?case
    unfolding m by simp
next
  case (Cons c before)
  have len: "length m = 6"
    using assms(1) by (rule length_marker)
  have "take (length ''title:'') (c # before @ m @ X @ rest) =
      take (length ''title:'') (c # before @ take 5 m)"
    using len by simp
  then have "startsWith (toLowerCase (c # before @ m @ X @ rest)) ''title:'' =
      startsWith (toLowerCase (c # before @ take 5 m)) ''title:''"
    by (rule startsWith_lower_cong)
  moreover from Cons.prems have "\<not> startsWith (toLowerCase (c # before @ take 5 m)) ''title:''"
    and rest: "\<not> includes_str (toLowerCase (before @ take 5 m)) ''title:''"
    by (simp_all add: toLowerCase_def)
  ultimately have "title_at (c # before @ m @ X @ rest) = None"
    by (simp add: title_at_def matches_ci_title)
  with Cons.IH [OF rest] show ?case by simp
qed

lemma toLowerCase_append [simp]: "toLowerCase (xs @ ys) = toLowerCase xs @ toLowerCase ys"
  by (simp add: toLowerCase_def)

lemma startsWith_length: "startsWith s p \<Longrightarrow> length p \<le> length s"
proof -
  assume "startsWith s p"
  then have "length (take (length p) s) = length p"
    by (simp only: startsWith_def)
  then show ?thesis by simp
qed

lemma startsWith_append: "startsWith xs p \<Longrightarrow> startsWith (xs @ zs) p"
  using startsWith_length [of xs p] by (simp add: startsWith_def)

lemma includes_str_Nil [simp]: "includes_str s []"
  by (cases s) (simp_all add: startsWith_def)

lemma includes_str_prefix: "includes_str (p @ zs) p"
  by (cases p) (simp_all add: startsWith_def)

lemma includes_str_append_left: "includes_str ys p \<Longrightarrow> includes_str (xs @ ys) p"
  by (induction xs) auto

lemma includes_str_append_right: "includes_str xs p \<Longrightarrow> includes_str (xs @ zs) p"
proof (induction xs)
  case Nil
  then show ?case by simp
next
  case (Cons x xs)
  then show ?case
    using startsWith_append [of "x # xs" p zs] by auto
qed

lemma startsWith_set: "startsWith s p \<Longrightarrow> set p \<subseteq> set s"
  unfolding startsWith_def by (metis set_take_subset)

lemma includes_str_set: "includes_str s p \<Longrightarrow> set p \<subseteq> set s"
proof (induction s)
  case Nil
  then show ?case by simp
next
  case (Cons a s)
  from Cons.prems have "startsWith (a # s) p \<or> includes_str s p"
    by simp
  then show ?case
  proof
    assume "startsWith (a # s) p"
    then show ?thesis by (rule startsWith_set)
  next
    assume "includes_str s p"
    then have "set p \<subseteq> set s" by (rule Cons.IH)
    then show ?thesis by auto
  qed
qed

text \<open>An occurrence of \<open>p\<close> in \<open>xs @ ys\<close> lies in \<open>xs\<close> when the last character of \<open>p\<close>
  does not occur in \<open>ys\<close>.\<close>

lemma startsWith_left:
  assumes "startsWith (zs @ ys) p" and "p \<noteq> []" and "last p \<notin> set ys"
  shows "startsWith zs p"
proof (cases "length p \<le> length zs")
  case True
  with assms(1) show ?thesis
    by (simp add: startsWith_def)
next
  case False
  let ?t = "take (length p - length zs) ys"
  from assms(1) have p: "p = zs @ ?t"
    using False by (simp add: startsWith_def)
  have "length p \<le> length zs + length ys"
    using startsWith_length [OF assms(1)] by simp
  with False have "?t \<noteq> []"
    by auto
  then have "last p \<in> set ?t"
    by (subst p) simp
  then have "last p \<in> set ys"
    by (rule in_set_takeD)
  with assms(3) show ?thesis by simp
qed

lemma includes_str_left:
  assumes "includes_str (xs @ ys) p" and "p \<noteq> []" and "last p \<notin> set ys"
  shows "includes_str xs p"
  using assms(1)
proof (induction xs)
  case Nil
  then have "set p \<subseteq> set ys"
    by (auto dest: includes_str_set)
  with assms(2,3) show ?case
    using last_in_set by blast
next
  case (Cons x xs)
  from Cons.prems have "startsWith ((x # xs) @ ys) p \<or> includes_str (xs @ ys) p"
    by simp
  then show ?case
  proof
    assume "startsWith ((x # xs) @ ys) p"
    then have "startsWith (x # xs) p"
      using assms(2,3) by (rule startsWith_left)
    then show ?thesis by simp
  next
    assume "includes_str (xs @ ys) p"
    then have "includes_str xs p" by (rule Cons.IH)
    then show ?thesis by simp
  qed
qed

lemma truncatedText_no_marker:
  assumes "\<not> includes_str (toLowerCase articleText) ''title:''"
  shows "\<not> includes_str (toLowerCase (truncatedText articleText)) ''title:''"
proof (cases "length articleText > 8000")
  case False
  then have "truncatedText articleText = articleText"
    by (simp only: truncatedText_def if_False)
  with assms show ?thesis by simp
next
  case True
  then have cut: "truncatedText articleText = take 8000 articleText @ ''...''"
    by (simp only: truncatedText_def if_True)
  show ?thesis
  proof
    assume "includes_str (toLowerCase (truncatedText articleText)) ''title:''"
    then have a: "includes_str (toLowerCase (take 8000 articleText) @ toLowerCase ''...'') ''title:''"
      by (simp only: cut toLowerCase_append)
    have b: "last ''title:'' \<notin> set (toLowerCase ''...'')"
      by (simp add: toLowerCase_def toLowerCase_char_def upper_case_def lower_case_def)
    have c: "''title:'' \<noteq> []"
      by simp
    have "includes_str (toLowerCase (take 8000 articleText)) ''title:''"
      using a c b by (rule includes_str_left)
    then have "includes_str (toLowerCase (take 8000 articleText) @
        toLowerCase (drop 8000 articleText)) ''title:''"
      by (rule includes_str_append_right)
    then have "includes_str (toLowerCase articleText) ''title:''"
      by (simp only: toLowerCase_append [symmetric] append_take_drop_id)
    with assms show False by simp
  qed
qed

lemma trim_dropWhile [simp]: "trim (dropWhile is_space X) = trim X"
  by (simp add: trim_def)

text \<open>Title and content of a text in which the first marker is followed, on its line, by
  something other than white space.\<close>

lemma title_and_content_marker:
  assumes "toLowerCase m = ''title:''"
    and "\<exists>c\<in>set X. \<not> is_space c" and "nl \<notin> set X" and "rest = [] \<or> hd rest = nl"
    and "\<not> includes_str (toLowerCase (before @ take 5 m)) ''title:''"
  shows "title_and_content (before @ m @ X @ rest) = (trim X, trim (before @ rest))"
proof -
  have "includes_str (toLowerCase m @ toLowerCase (X @ rest)) ''title:''"
    unfolding assms(1) by (rule includes_str_prefix)
  then have "includes_str (toLowerCase (before @ m @ X @ rest)) ''title:''"
    by (simp add: includes_str_append_left del: includes_str.simps)
  moreover have "dropWhile is_space X \<noteq> []"
    using assms(2) by (simp add: dropWhile_eq_Nil_conv)
  ultimately show ?thesis
    using title_search_marker [OF assms] by (simp add: title_and_content_def)
qed

lemma title_and_content_default:
  "\<not> includes_str (toLowerCase txt) ''title:'' \<Longrightarrow>
   title_and_content txt = (''Scholarly Article'', txt)"
  by (simp add: title_and_content_def)

lemmas string_tests = startsWith_def endsWith_def trim_def is_space_def nl_def
lemmas letter_case = toLowerCase_def toLowerCase_char_def canonicalize_def upper_case_def
  lower_case_def

lemma plain_summary: "final_summary title ''A summary.'' = ''A summary.''"
  by (simp add: final_summary_def needs_default_def string_tests)

text \<open>
  Claim C4, as the code has it. Let the text, cut to 8000 characters and \<^verbatim>\<open>...\<close> when it
  is longer, be \<open>before @ marker @ X @ rest\<close>, where \<open>marker\<close> is \<^verbatim>\<open>title:\<close> in any letter
  case and its first occurrence, \<open>X\<close> holds no line feed and some character that is not
  white space, and \<open>rest\<close> is empty or starts with a line feed. Then the title is \<open>X\<close>
  trimmed, and the content is the text without the marker and \<open>X\<close>, trimmed. For a text
  without a marker the title is \<^verbatim>\<open>Scholarly Article\<close> and the content is the text, cut as
  above.
\<close>

theorem summarizeArticle_title:
  "(toLowerCase marker = ''title:'' \<and>
    truncatedText articleText = before @ marker @ X @ rest \<and>
    \<not> includes_str (toLowerCase (before @ take 5 marker)) ''title:'' \<and>
    (\<exists>c\<in>set X. \<not> is_space c) \<and> nl \<notin> set X \<and> (rest = [] \<or> hd rest = nl) \<longrightarrow>
    summarizeArticle responses_create articleText =
      summary_response (trim X)
        (responses_create \<lparr>request_title = trim X, request_content = trim (before @ rest)\<rparr>))
   \<and> (\<not> includes_str (toLowerCase articleText) ''title:'' \<longrightarrow>
    summarizeArticle responses_create articleText =
      summary_response ''Scholarly Article''
        (responses_create \<lparr>request_title = ''Scholarly Article'',
           request_content = truncatedText articleText\<rparr>))"
proof (intro conjI impI)
  assume a: "toLowerCase marker = ''title:'' \<and>
    truncatedText articleText = before @ marker @ X @ rest \<and>
    \<not> includes_str (toLowerCase (before @ take 5 marker)) ''title:'' \<and>
    (\<exists>c\<in>set X. \<not> is_space c) \<and> nl \<notin> set X \<and> (rest = [] \<or> hd rest = nl)"
  then have "title_and_content (before @ marker @ X @ rest) = (trim X, trim (before @ rest))"
    by (intro title_and_content_marker) simp_all
  with a show "summarizeArticle responses_create articleText =
      summary_response (trim X)
        (responses_create \<lparr>request_title = trim X, request_content = trim (before @ rest)\<rparr>)"
    by (simp add: summarizeArticle_def)
next
  assume "\<not> includes_str (toLowerCase articleText) ''title:''"
  then have "\<not> includes_str (toLowerCase (truncatedText articleText)) ''title:''"
    by (rule truncatedText_no_marker)
  then show "summarizeArticle responses_create articleText =
      summary_response ''Scholarly Article''
        (responses_create \<lparr>request_title = ''Scholarly Article'',
           request_content = truncatedText articleText\<rparr>)"
    by (simp add: summarizeArticle_def title_and_content_default)
qed

theorem summarizeArticle_title_witness:
  "summarizeArticle answers_plainly (''see TiTle:  An X  '' @ nl # '' Body '') =
     \<lparr>summary_title = ''An X'', summary_text = ''A summary.'', summary_error = None\<rparr>
   \<and> summarizeArticle answers_plainly ''No marker here'' =
     \<lparr>summary_title = ''Scholarly Article'', summary_text = ''A summary.'', summary_error = None\<rparr>"
proof -
  have short: "truncatedText (''see TiTle:  An X  '' @ nl # '' Body '') =
      ''see '' @ ''TiTle:'' @ ''  An X  '' @ nl # '' Body ''"
    by (simp add: truncatedText_def)
  have "summarizeArticle answers_plainly (''see TiTle:  An X  '' @ nl # '' Body '') =
      summary_response (trim ''  An X  '')
        (answers_plainly \<lparr>request_title = trim ''  An X  '',
           request_content = trim (''see '' @ nl # '' Body '')\<rparr>)"
    using summarizeArticle_title [of "''TiTle:''" "''see TiTle:  An X  '' @ nl # '' Body ''"
        "''see ''" "''  An X  ''" "nl # '' Body ''" answers_plainly, THEN conjunct1] short
    by (simp add: letter_case string_tests)
  then have one: "summarizeArticle answers_plainly (''see TiTle:  An X  '' @ nl # '' Body '') =
      \<lparr>summary_title = ''An X'', summary_text = ''A summary.'', summary_error = None\<rparr>"
    by (simp add: summary_response_def answers_plainly_def plain_reply_def
        extracted_summary_def plain_summary) (simp add: string_tests)
  have "summarizeArticle answers_plainly ''No marker here'' =
      summary_response ''Scholarly Article''
        (answers_plainly \<lparr>request_title = ''Scholarly Article'',
           request_content = truncatedText ''No marker here''\<rparr>)"
    using summarizeArticle_title [of _ "''No marker here''" _ _ _ answers_plainly, THEN conjunct2]
    by (simp add: letter_case string_tests)
  then have two: "summarizeArticle answers_plainly ''No marker here'' =
      \<lparr>summary_title = ''Scholarly Article'', summary_text = ''A summary.'', summary_error = None\<rparr>"
    by (simp add: summary_response_def answers_plainly_def plain_reply_def
        extracted_summary_def plain_summary)
  from one two show ?thesis by simp
qed

lemma dropWhile_replicate_append:
  "\<not> P x \<Longrightarrow> 0 < n \<Longrightarrow> dropWhile P (replicate n x @ ys) = replicate n x @ ys"
  by (cases n) simp_all

lemma set_trim: "set (trim s) \<subseteq> set s"
  by (auto simp: trim_def dest!: set_dropWhileD)

lemma long_title_cut:
  "truncatedText (''title: '' @ replicate 8000 CHR ''a'' @ nl # ''b'') =
     [] @ ''title:'' @ ('' '' @ replicate 7993 CHR ''a'' @ ''...'') @ []"
  by (simp add: truncatedText_def)

lemma long_title_trim:
  "trim ('' '' @ replicate 7993 CHR ''a'' @ ''...'') = replicate 7993 CHR ''a'' @ ''...''"
proof -
  have a: "\<not> is_space CHR ''a''" and d: "\<not> is_space CHR ''.''" and s: "is_space CHR '' ''"
    by (simp_all add: is_space_def)
  have "dropWhile is_space ('' '' @ replicate 7993 CHR ''a'' @ ''...'') =
      replicate 7993 CHR ''a'' @ ''...''"
    using s dropWhile_replicate_append [of is_space "CHR ''a''" 7993 "''...''", OF a] by simp
  then show ?thesis
    using d by (simp add: trim_def)
qed

lemma long_title_run:
  "summary_title (summarizeArticle answers_plainly
     (''title: '' @ replicate 8000 CHR ''a'' @ nl # ''b'')) = replicate 7993 CHR ''a'' @ ''...''"
proof -
  have "title_and_content ([] @ ''title:'' @ ('' '' @ replicate 7993 CHR ''a'' @ ''...'') @ []) =
      (trim ('' '' @ replicate 7993 CHR ''a'' @ ''...''), trim ([] @ []))"
    by (rule title_and_content_marker) (simp_all add: letter_case string_tests)
  then show ?thesis
    by (simp only: summarizeArticle_def long_title_cut long_title_trim)
      (simp add: summary_response_def answers_plainly_def plain_reply_def extracted_summary_def)
qed

text \<open>A title line that reaches beyond the first 8000 characters: the title is the
  part that is left of it, with the dots of the cut.\<close>

theorem summarizeArticle_title_counterexample:
  "summary_title (summarizeArticle answers_plainly
     (''title: '' @ replicate 8000 CHR ''a'' @ nl # ''b'')) = replicate 7993 CHR ''a'' @ ''...''
   \<and> replicate 7993 CHR ''a'' @ ''...'' \<noteq> trim (replicate 8000 CHR ''a'')"
proof -
  have "CHR ''.'' \<notin> set (trim (replicate 8000 CHR ''a''))"
    using set_trim [of "replicate 8000 CHR ''a''"] by auto
  moreover have "CHR ''.'' \<in> set (replicate 7993 CHR ''a'' @ ''...'')"
    by simp
  ultimately have "replicate 7993 CHR ''a'' @ ''...'' \<noteq> trim (replicate 8000 CHR ''a'')"
    by metis
  with long_title_run show ?thesis by simp
qed

text \<open>The summary is never empty, whatever the call does.\<close>

lemma final_summary_nonempty: "final_summary title summary \<noteq> []"
  by (simp add: final_summary_def needs_default_def default_summary_def)

lemma summarizeArticle_summary_nonempty:
  "summary_text (summarizeArticle responses_create articleText) \<noteq> []"
  by (simp add: summarizeArticle_def summary_response_def catch_summary_def
      final_summary_nonempty split: prod.splits outcome.splits sum.splits)

lemma summarizeArticle_threw:
  "responses_create \<lparr>request_title = fst (title_and_content (truncatedText articleText)),
      request_content = snd (title_and_content (truncatedText articleText))\<rparr> = Threw e \<Longrightarrow>
   summarizeArticle responses_create articleText =
     \<lparr>summary_title = ''Error Summarizing Article'',
      summary_text = ''There was an error generating the summary.'',
      summary_error = Some (case e of Error msg \<Rightarrow> msg
                            | NotAnError \<Rightarrow> ''Unknown error summarizing article'')\<rparr>"
  by (cases "title_and_content (truncatedText articleText)")
    (simp add: summarizeArticle_def summary_response_def catch_summary_def)

text \<open>
  Claim C2 says that title and summary of the result are never empty. The summary never
  is (\<open>summarizeArticle_summary_nonempty\<close>), and a call that throws gives the fixed error
  record (\<open>summarizeArticle_threw\<close>). The title is empty for a text whose marker is
  followed by white space only: the group of the pattern then matches white space, which
  is truthy, and \<^verbatim>\<open>trim\<close> leaves nothing of it.
\<close>

theorem summarizeArticle_blank_title:
  "summarizeArticle answers_plainly ''title:  '' =
     \<lparr>summary_title = [], summary_text = ''A summary.'', summary_error = None\<rparr>"
proof -
  have "title_and_content ''title:  '' = ([], [])"
    by (simp add: title_and_content_def title_at_def matches_ci_def letter_case string_tests)
  then show ?thesis
    by (simp add: summarizeArticle_def truncatedText_def summary_response_def
        answers_plainly_def plain_reply_def extracted_summary_def plain_summary)
qed

text \<open>
  Claim C5, as the code has it. The extraction takes the first shape that is present, in
  the order \<^verbatim>\<open>output_text\<close> (a string), \<^verbatim>\<open>output\<close> (an array that is not empty),
  \<^verbatim>\<open>text\<close> (defined), \<^verbatim>\<open>choices\<close> (there), and reads that shape only. From \<^verbatim>\<open>output_text\<close>
  it takes the string. From \<^verbatim>\<open>output\<close> it takes the text of the first item of type
  \<^verbatim>\<open>output_text\<close> with a text that is not empty in the content of the first element, and
  no text when that element is \<^verbatim>\<open>null\<close>, has no content array or has no such item. From
  \<^verbatim>\<open>text\<close> it takes the string, and a fixed sentence when the value is no string. From
  \<^verbatim>\<open>choices\<close> it takes the content of the message of the first choice, and no text when
  the array is empty, the value is no array, or message or content are missing. Without
  any shape it takes another fixed sentence. A \<^verbatim>\<open>null\<close> that is read (an item of the
  content before a text is found, the first choice) throws, and the result is the error
  record. Otherwise what was taken is the summary unless it is empty, blank or wrapped in
  braces, and then the default summary is returned, whatever the shapes after it hold.
\<close>

theorem extracted_summary_first_present:
  "(output_text response = Present s \<longrightarrow> extracted_summary response = Inr s)
   \<and> (output_text response = Absent \<or> output_text response = Mistyped \<longrightarrow>
       (output_items response = Present (None # rest) \<longrightarrow> extracted_summary response = Inr [])
     \<and> (output_items response = Present (Some item # rest) \<longrightarrow>
          (item_content item = Absent \<or> item_content item = Mistyped \<longrightarrow>
             extracted_summary response = Inr [])
        \<and> (item_content item = Present content \<longrightarrow>
             extracted_summary response = first_output_text content))
     \<and> (output_items response = Absent \<or> output_items response = Mistyped \<or>
         output_items response = Present [] \<longrightarrow>
          (response_text response = Present s \<longrightarrow> extracted_summary response = Inr s)
        \<and> (response_text response = Mistyped \<longrightarrow>
             extracted_summary response =
               Inr ''No summary content available from text property.'')
        \<and> (response_text response = Absent \<longrightarrow>
             (choices response = Present (Some firstChoice # others) \<longrightarrow>
                (choice_message firstChoice = Some m \<and> message_content m = Some s \<longrightarrow>
                   extracted_summary response = Inr s)
              \<and> (choice_message firstChoice = None \<or>
                  choice_message firstChoice = Some m \<and> message_content m = None \<longrightarrow>
                   extracted_summary response = Inr []))
           \<and> (choices response = Present (None # others) \<longrightarrow>
                extracted_summary response = Inl (null_property ''message''))
           \<and> (choices response = Present [] \<or> choices response = Mistyped \<longrightarrow>
                extracted_summary response = Inr [])
           \<and> (choices response = Absent \<longrightarrow>
                extracted_summary response =
                  Inr ''Unable to extract summary from response.''))))
   \<and> ((\<forall>i\<in>set skipped. \<exists>c. i = Some c \<and>
          \<not> (content_type c = Some ''output_text'' \<and> truthy (content_text c))) \<longrightarrow>
       first_output_text skipped = Inr []
     \<and> (content_type found = Some ''output_text'' \<and> content_text found = Some t \<and> t \<noteq> [] \<longrightarrow>
          first_output_text (skipped @ Some found # after) = Inr t)
     \<and> first_output_text (skipped @ None # after) = Inl (null_property ''type''))
   \<and> (extracted_summary response = Inr s \<longrightarrow>
       summary_response title (Returned response) =
         \<lparr>summary_title = title,
          summary_text = (if needs_default s then default_summary title else s),
          summary_error = None\<rparr>)
   \<and> (extracted_summary response = Inl (Error msg) \<longrightarrow>
       summary_response title (Returned response) =
         \<lparr>summary_title = ''Error Summarizing Article'',
          summary_text = ''There was an error generating the summary.'',
          summary_error = Some msg\<rparr>)"
proof -
  have loop: "first_output_text skipped = Inr []
     \<and> (content_type found = Some ''output_text'' \<and> content_text found = Some t \<and> t \<noteq> [] \<longrightarrow>
          first_output_text (skipped @ Some found # after) = Inr t)
     \<and> first_output_text (skipped @ None # after) = Inl (null_property ''type'')"
    if "\<forall>i\<in>set skipped. \<exists>c. i = Some c \<and>
          \<not> (content_type c = Some ''output_text'' \<and> truthy (content_text c))"
    using that
    by (induction skipped rule: first_output_text.induct)
      (auto simp: truthy_def split: option.splits)
  have shapes: "(output_text response = Present s \<longrightarrow> extracted_summary response = Inr s)
   \<and> (output_text response = Absent \<or> output_text response = Mistyped \<longrightarrow>
       (output_items response = Present (None # rest) \<longrightarrow> extracted_summary response = Inr [])
     \<and> (output_items response = Present (Some item # rest) \<longrightarrow>
          (item_content item = Absent \<or> item_content item = Mistyped \<longrightarrow>
             extracted_summary response = Inr [])
        \<and> (item_content item = Present content \<longrightarrow>
             extracted_summary response = first_output_text content))
     \<and> (output_items response = Absent \<or> output_items response = Mistyped \<or>
         output_items response = Present [] \<longrightarrow>
          (response_text response = Present s \<longrightarrow> extracted_summary response = Inr s)
        \<and> (response_text response = Mistyped \<longrightarrow>
             extracted_summary response =
               Inr ''No summary content available from text property.'')
        \<and> (response_text response = Absent \<longrightarrow>
             (choices response = Present (Some firstChoice # others) \<longrightarrow>
                (choice_message firstChoice = Some m \<and> message_content m = Some s \<longrightarrow>
                   extracted_summary response = Inr s)
              \<and> (choice_message firstChoice = None \<or>
                  choice_message firstChoice = Some m \<and> message_content m = None \<longrightarrow>
                   extracted_summary response = Inr []))
           \<and> (choices response = Present (None # others) \<longrightarrow>
                extracted_summary response = Inl (null_property ''message''))
           \<and> (choices response = Present [] \<or> choices response = Mistyped \<longrightarrow>
                extracted_summary response = Inr [])
           \<and> (choices response = Absent \<longrightarrow>
                extracted_summary response =
                  Inr ''Unable to extract summary from response.''))))"
    by (auto simp: extracted_summary_def)
  have result: "(extracted_summary response = Inr s \<longrightarrow>
       summary_response title (Returned response) =
         \<lparr>summary_title = title,
          summary_text = (if needs_default s then default_summary title else s),
          summary_error = None\<rparr>)
   \<and> (extracted_summary response = Inl (Error msg) \<longrightarrow>
       summary_response title (Returned response) =
         \<lparr>summary_title = ''Error Summarizing Article'',
          summary_text = ''There was an error generating the summary.'',
          summary_error = Some msg\<rparr>)"
    by (simp add: summary_response_def final_summary_def catch_summary_def)
  from shapes loop result show ?thesis
    by blast
qed

theorem extracted_summary_first_present_witness:
  "summary_response ''T'' (Returned plain_reply) =
     \<lparr>summary_title = ''T'', summary_text = ''A summary.'', summary_error = None\<rparr>
   \<and> summary_response ''T'' (Returned empty_text_reply) =
     \<lparr>summary_title = ''T'', summary_text = default_summary ''T'', summary_error = None\<rparr>
   \<and> summary_response ''T'' (Returned (empty_text_reply\<lparr>output_text := Absent\<rparr>)) =
     \<lparr>summary_title = ''T'', summary_text = ''hello'', summary_error = None\<rparr>
   \<and> summary_response ''T''
       (Returned (shapeless_reply\<lparr>output_items := Present [None],
          response_text := Present ''From text.''\<rparr>)) =
     \<lparr>summary_title = ''T'', summary_text = default_summary ''T'', summary_error = None\<rparr>
   \<and> summary_response ''T'' (Returned (shapeless_reply\<lparr>response_text := Mistyped\<rparr>)) =
     \<lparr>summary_title = ''T'',
      summary_text = ''No summary content available from text property.'',
      summary_error = None\<rparr>
   \<and> summary_response ''T'' (Returned (shapeless_reply\<lparr>choices := Present [None]\<rparr>)) =
     \<lparr>summary_title = ''Error Summarizing Article'',
      summary_text = ''There was an error generating the summary.'',
      summary_error = Some ''Cannot read properties of null (reading 'message')''\<rparr>
   \<and> summary_response ''T'' (Returned shapeless_reply) =
     \<lparr>summary_title = ''T'', summary_text = ''Unable to extract summary from response.'',
      summary_error = None\<rparr>"
proof -
  note t = extracted_summary_first_present
  have nd: "\<not> needs_default ''A summary.''" "needs_default []" "\<not> needs_default ''hello''"
    "\<not> needs_default ''No summary content available from text property.''"
    "\<not> needs_default ''Unable to extract summary from response.''"
    by (simp_all add: needs_default_def string_tests)
  have 1: "summary_response ''T'' (Returned plain_reply) =
     \<lparr>summary_title = ''T'', summary_text = ''A summary.'', summary_error = None\<rparr>"
    using t [where response = plain_reply and s = "''A summary.''" and title = "''T''"] nd
    by (simp add: plain_reply_def)
  have 2: "summary_response ''T'' (Returned empty_text_reply) =
     \<lparr>summary_title = ''T'', summary_text = default_summary ''T'', summary_error = None\<rparr>"
    using t [where response = empty_text_reply and s = "[]" and title = "''T''"] nd
    by (simp add: empty_text_reply_def)
  have "first_output_text
      ([] @ Some \<lparr>content_type = Some ''output_text'', content_text = Some ''hello''\<rparr> # []) =
      Inr ''hello''"
    using t [where skipped = "[]" and t = "''hello''" and after = "[]"
        and found = "\<lparr>content_type = Some ''output_text'', content_text = Some ''hello''\<rparr>"]
    by simp
  then have 3: "summary_response ''T'' (Returned (empty_text_reply\<lparr>output_text := Absent\<rparr>)) =
     \<lparr>summary_title = ''T'', summary_text = ''hello'', summary_error = None\<rparr>"
    using t [where response = "empty_text_reply\<lparr>output_text := Absent\<rparr>" and s = "''hello''"
        and title = "''T''" and rest = "[]"
        and item = "\<lparr>item_content = Present
          [Some \<lparr>content_type = Some ''output_text'', content_text = Some ''hello''\<rparr>]\<rparr>"
        and content = "[Some \<lparr>content_type = Some ''output_text'', content_text = Some ''hello''\<rparr>]"]
      nd
    by (simp add: empty_text_reply_def)
  have 4: "summary_response ''T''
       (Returned (shapeless_reply\<lparr>output_items := Present [None],
          response_text := Present ''From text.''\<rparr>)) =
     \<lparr>summary_title = ''T'', summary_text = default_summary ''T'', summary_error = None\<rparr>"
    using t [where response = "shapeless_reply\<lparr>output_items := Present [None],
          response_text := Present ''From text.''\<rparr>" and s = "[]" and title = "''T''"
        and rest = "[]"] nd
    by (simp add: shapeless_reply_def)
  have 5: "summary_response ''T'' (Returned (shapeless_reply\<lparr>response_text := Mistyped\<rparr>)) =
     \<lparr>summary_title = ''T'',
      summary_text = ''No summary content available from text property.'',
      summary_error = None\<rparr>"
    using t [where response = "shapeless_reply\<lparr>response_text := Mistyped\<rparr>"
        and s = "''No summary content available from text property.''" and title = "''T''"] nd
    by (simp add: shapeless_reply_def)
  have 6: "summary_response ''T'' (Returned (shapeless_reply\<lparr>choices := Present [None]\<rparr>)) =
     \<lparr>summary_title = ''Error Summarizing Article'',
      summary_text = ''There was an error generating the summary.'',
      summary_error = Some ''Cannot read properties of null (reading 'message')''\<rparr>"
    using t [where response = "shapeless_reply\<lparr>choices := Present [None]\<rparr>"
        and msg = "''Cannot read properties of null (reading 'message')''" and title = "''T''"
        and others = "[]"]
    by (simp add: shapeless_reply_def null_property_def)
  have 7: "summary_response ''T'' (Returned shapeless_reply) =
     \<lparr>summary_title = ''T'', summary_text = ''Unable to extract summary from response.'',
      summary_error = None\<rparr>"
    using t [where response = shapeless_reply
        and s = "''Unable to extract summary from response.''" and title = "''T''"] nd
    by (simp add: shapeless_reply_def)
  from 1 2 3 4 5 6 7 show ?thesis
    by blast
qed

text \<open>An empty \<^verbatim>\<open>output_text\<close> before an \<^verbatim>\<open>output\<close> array with text: the text is not used.\<close>

theorem extracted_summary_counterexample:
  "summary_text (summarizeArticle answers_with_empty_text ''abc'') =
     default_summary ''Scholarly Article''
   \<and> summary_text (summarizeArticle answers_with_empty_text ''abc'') \<noteq> ''hello''"
proof -
  have "title_and_content ''abc'' = (''Scholarly Article'', ''abc'')"
    by (simp add: title_and_content_def letter_case string_tests)
  then have "summary_text (summarizeArticle answers_with_empty_text ''abc'') =
      default_summary ''Scholarly Article''"
    by (simp add: summarizeArticle_def truncatedText_def summary_response_def
        answers_with_empty_text_def empty_text_reply_def extracted_summary_def
        final_summary_def needs_default_def)
  then show ?thesis
    by (simp add: default_summary_def)
qed

section \<open>Properties of the query generator\<close>

lemma trim_parts:
  "dropWhile is_space s = trim s @ rev (takeWhile is_space (rev (dropWhile is_space s)))"
proof -
  let ?u = "dropWhile is_space s"
  have "trim s @ rev (takeWhile is_space (rev ?u)) =
      rev (takeWhile is_space (rev ?u) @ dropWhile is_space (rev ?u))"
    by (simp only: trim_def rev_append)
  also have "\<dots> = rev (rev ?u)"
    by (simp only: takeWhile_dropWhile_id)
  finally show ?thesis by simp
qed


lemma dropWhile_trim: "dropWhile is_space (trim s) = trim s"
proof (cases "trim s = []")
  case True
  then show ?thesis by simp
next
  case False
  let ?u = "dropWhile is_space s"
  from False trim_parts [of s] have "?u \<noteq> []" and "hd ?u = hd (trim s)"
    by (metis append_is_Nil_conv, metis hd_append2)
  then have "\<not> is_space (hd (trim s))"
    using hd_dropWhile [of is_space s] by simp
  with False show ?thesis
    by (cases "trim s") simp_all
qed

lemma trim_trim [simp]: "trim (trim s) = trim s"
proof -
  have "dropWhile is_space (rev (trim s)) = rev (trim s)"
    by (simp add: trim_def)
  then show ?thesis
    by (subst trim_def) (simp add: dropWhile_trim)
qed

lemma split_on_nonempty [simp]: "split_on d r \<noteq> []"
  by (induction r) (auto simp: Let_def)















section \<open>Properties of the pipeline\<close>

lemma generateArticle_without_queries:
  assumes "interests \<noteq> []" and "fetch_cohere world interests = Returned cohereData"
    and "data_queries cohereData = None \<or> data_queries cohereData = Some []"
  shows "generateArticle world state interests =
     (\<lparr>article = Some no_queries_article, loading = False\<rparr>, [ToCohere interests])"
  using assms by (auto simp: generateArticle_def no_queries_article_def)

text \<open>
  Claim C8. In a run in which the query generator returns no queries (an empty list, or a
  reply without queries), \<^verbatim>\<open>generateArticle\<close> ends with the article that explains that no
  queries were generated; the only request of the run is the one to the query generator,
  so neither the search provider nor the summarizer is called.
\<close>

theorem generateArticle_no_queries:
  assumes "interests \<noteq> []" and "fetch_cohere world interests = Returned cohereData"
    and "data_queries cohereData = None \<or> data_queries cohereData = Some []"
  shows "generateArticle world state interests =
     (\<lparr>article = Some
         \<lparr>article_title = ''No Queries Generated'',
          article_summary = ''We couldn't generate any queries based on your interests. Please try with different interests.'',
          link = None, originalTitle = None\<rparr>,
       loading = False\<rparr>,
      [ToCohere interests])"
  using generateArticle_without_queries [OF assms] by (simp add: no_queries_article_def)

theorem generateArticle_no_queries_witness:
  "generateArticle no_queries_world \<lparr>article = None, loading = False\<rparr> [''AI'', ''climate''] =
     (\<lparr>article = Some no_queries_article, loading = False\<rparr>, [ToCohere [''AI'', ''climate'']])"
  using generateArticle_no_queries [of "[''AI'', ''climate'']" no_queries_world
      "\<lparr>data_queries = Some []\<rparr>" "\<lparr>article = None, loading = False\<rparr>"]
  by (simp add: no_queries_world_def no_queries_article_def)

section \<open>Missing credentials\<close>

lemma or_else_falsy: "\<not> truthy a \<Longrightarrow> or_else a b = b"
  by (auto simp: truthy_def or_else_def split: option.splits)

text \<open>
  Claim C9. Without a key in the configuration and in the environment, the constructor of
  \<^verbatim>\<open>CohereHelper\<close> throws an error that names the missing key; the route \<^verbatim>\<open>/api/cohere\<close>
  catches it and replies with status 500 and that message (every reply of the route then
  carries an error), and the page shows the article for no queries. \<^verbatim>\<open>searchArticles\<close>
  returns a response that carries the message of the missing key, and sends no request.
\<close>

theorem missing_credentials:
  "(\<not> truthy (cohere_apiKey config) \<and> \<not> truthy (COHERE_KEY env) \<longrightarrow>
      new_CohereHelper config env =
        Inl (Error ''Cohere API key is not configured. Please set COHERE_KEY in .env.local''))
   \<and> (\<not> truthy (COHERE_KEY env) \<longrightarrow>
      cohere_POST env chat (Returned (Present (i # others))) =
        (500, ErrorBody ''Cohere API key is not configured. Please set COHERE_KEY in .env.local'')
      \<and> (\<exists>status message. cohere_POST env chat request_json = (status, ErrorBody message))
      \<and> (fetch_cohere world (i # others) =
            Returned (reply_data (snd (cohere_POST env chat (Returned (Present (i # others))))))
          \<longrightarrow> generateArticle world state (i # others) =
                (\<lparr>article = Some no_queries_article, loading = False\<rparr>,
                 [ToCohere (i # others)])))
   \<and> (\<not> truthy (cfg_apiKey scholarConfig) \<and> \<not> truthy (SCRAPINGDOG_KEY env) \<longrightarrow>
      searchArticles (new_ScholarHelper scholarConfig (SCRAPINGDOG_KEY env)) axios_get sent
        query page =
        (\<lparr>search_details = Some \<lparr>details_query = query, number_of_results = ''0 results''\<rparr>,
          scholar_results = Some [],
          search_error = Some
            ''ScrapingDog API key is not configured. Please set SCRAPINGDOG_KEY in .env.local''\<rparr>,
         sent))"
proof (intro conjI impI)
  assume "\<not> truthy (cohere_apiKey config) \<and> \<not> truthy (COHERE_KEY env)"
  then show "new_CohereHelper config env =
      Inl (Error ''Cohere API key is not configured. Please set COHERE_KEY in .env.local'')"
    by (simp add: new_CohereHelper_def or_else_falsy)
next
  assume k: "\<not> truthy (COHERE_KEY env)"
  then have new: "new_CohereHelper \<lparr>cohere_apiKey = None, cohere_model = None\<rparr> env =
      Inl (Error ''Cohere API key is not configured. Please set COHERE_KEY in .env.local'')"
    by (simp add: new_CohereHelper_def or_else_falsy) (simp add: or_else_def)
  then show post: "cohere_POST env chat (Returned (Present (i # others))) =
      (500, ErrorBody ''Cohere API key is not configured. Please set COHERE_KEY in .env.local'')"
    by (simp add: cohere_POST_def)
  from new show "\<exists>status message. cohere_POST env chat request_json = (status, ErrorBody message)"
    by (simp add: cohere_POST_def split: outcome.splits field.splits list.splits)
  assume "fetch_cohere world (i # others) =
      Returned (reply_data (snd (cohere_POST env chat (Returned (Present (i # others))))))"
  then have "fetch_cohere world (i # others) = Returned \<lparr>data_queries = None\<rparr>"
    by (simp add: post reply_data_def)
  then show "generateArticle world state (i # others) =
      (\<lparr>article = Some no_queries_article, loading = False\<rparr>, [ToCohere (i # others)])"
    using generateArticle_without_queries [of "i # others" world "\<lparr>data_queries = None\<rparr>" state]
    by simp
next
  assume "\<not> truthy (cfg_apiKey scholarConfig) \<and> \<not> truthy (SCRAPINGDOG_KEY env)"
  then have "apiKey (new_ScholarHelper scholarConfig (SCRAPINGDOG_KEY env)) = []"
    by (simp add: new_ScholarHelper_def or_else_falsy)
  then show "searchArticles (new_ScholarHelper scholarConfig (SCRAPINGDOG_KEY env)) axios_get sent
        query page =
        (\<lparr>search_details = Some \<lparr>details_query = query, number_of_results = ''0 results''\<rparr>,
          scholar_results = Some [],
          search_error = Some
            ''ScrapingDog API key is not configured. Please set SCRAPINGDOG_KEY in .env.local''\<rparr>,
         sent)"
    by (simp add: searchArticles_no_key catch_response_def)
qed

theorem missing_credentials_witness:
  "new_CohereHelper \<lparr>cohere_apiKey = None, cohere_model = None\<rparr> no_env =
     Inl (Error ''Cohere API key is not configured. Please set COHERE_KEY in .env.local'')
   \<and> cohere_POST no_env (\<lambda>request. Returned ''1. deep learning'') (Returned (Present [''AI''])) =
     (500, ErrorBody ''Cohere API key is not configured. Please set COHERE_KEY in .env.local'')
   \<and> search_error (fst (searchArticles
        (new_ScholarHelper \<lparr>cfg_apiKey = None, cfg_resultsPerPage = None, cfg_language = None\<rparr>
           (SCRAPINGDOG_KEY no_env))
        empty_then_down [] ''graph theory'' 0)) =
     Some ''ScrapingDog API key is not configured. Please set SCRAPINGDOG_KEY in .env.local''"
proof -
  note t = missing_credentials [of "\<lparr>cohere_apiKey = None, cohere_model = None\<rparr>" no_env
      "\<lambda>request. Returned ''1. deep learning''" "''AI''" "[]" _ _ _
      "\<lparr>cfg_apiKey = None, cfg_resultsPerPage = None, cfg_language = None\<rparr>"
      empty_then_down "[]" "''graph theory''" 0]
  have f: "\<not> truthy None" "\<not> truthy (COHERE_KEY no_env)" "\<not> truthy (SCRAPINGDOG_KEY no_env)"
    by (simp_all add: truthy_def no_env_def)
  have 1: "new_CohereHelper \<lparr>cohere_apiKey = None, cohere_model = None\<rparr> no_env =
     Inl (Error ''Cohere API key is not configured. Please set COHERE_KEY in .env.local'')"
    using t [THEN conjunct1] f by simp
  have 2: "cohere_POST no_env (\<lambda>request. Returned ''1. deep learning'')
      (Returned (Present [''AI''])) =
     (500, ErrorBody ''Cohere API key is not configured. Please set COHERE_KEY in .env.local'')"
    using t [THEN conjunct2, THEN conjunct1] f by simp
  have 3: "search_error (fst (searchArticles
        (new_ScholarHelper \<lparr>cfg_apiKey = None, cfg_resultsPerPage = None, cfg_language = None\<rparr>
           (SCRAPINGDOG_KEY no_env))
        empty_then_down [] ''graph theory'' 0)) =
     Some ''ScrapingDog API key is not configured. Please set SCRAPINGDOG_KEY in .env.local''"
    using t [THEN conjunct2, THEN conjunct2] f by simp
  from 1 2 3 show ?thesis by blast
qed

end
